theory Spec2Isabelle
  imports Complex_Main "HOL-Library.Char_ord" "HOL-Library.List_Lexorder"
    "HOL-Library.Log_Nat" "HOL-Library.Sublist" "HOL-Library.Multiset"
begin

section \<open>Strings\<close>

text \<open>
  A Python \<open>str\<close> is modelled as a \<open>string\<close>; a \<open>char\<close> is read as the code point of
  the same number (U+0000 to U+00FF). Text with code points above U+00FF is outside the
  model. The order on strings is Python's: lexicographic by code point.
\<close>

definition py_isspace :: "char \<Rightarrow> bool" where
  \<comment> \<open>\<open>str.isspace\<close> on one character, code points below 256\<close>
  "py_isspace c =
     (let n = (of_char c :: nat)
      in (9 \<le> n \<and> n \<le> 13) \<or> (28 \<le> n \<and> n \<le> 32) \<or> n = 133 \<or> n = 160)"

definition py_strip :: "string \<Rightarrow> string" where
  \<comment> \<open>\<open>s.strip()\<close>: leading and trailing whitespace removed\<close>
  "py_strip s = rev (dropWhile py_isspace (rev (dropWhile py_isspace s)))"

definition py_lower_char :: "char \<Rightarrow> char" where
  "py_lower_char c =
     (let n = (of_char c :: nat)
      in if (65 \<le> n \<and> n \<le> 90) \<or> (192 \<le> n \<and> n \<le> 222 \<and> n \<noteq> 215)
         then char_of (n + 32) else c)"

definition py_lower :: "string \<Rightarrow> string" where
  \<comment> \<open>\<open>s.lower()\<close>\<close>
  "py_lower s = map py_lower_char s"

fun startswith :: "string \<Rightarrow> string \<Rightarrow> bool" where
  \<comment> \<open>\<open>s.startswith(p)\<close> for one prefix \<open>p\<close>\<close>
  "startswith s [] = True"
| "startswith [] (p # ps) = False"
| "startswith (c # s) (p # ps) = (c = p \<and> startswith s ps)"

definition startswith_any :: "string \<Rightarrow> string list \<Rightarrow> bool" where
  \<comment> \<open>\<open>s.startswith(t)\<close> for a tuple \<open>t\<close> of prefixes\<close>
  "startswith_any s ps = list_ex (startswith s) ps"

definition endswith :: "string \<Rightarrow> string \<Rightarrow> bool" where
  "endswith s p = startswith (rev s) (rev p)"

fun py_in :: "string \<Rightarrow> string \<Rightarrow> bool" where
  \<comment> \<open>\<open>sub in s\<close>: \<open>sub\<close> occurs in \<open>s\<close> as a contiguous substring\<close>
  "py_in sub [] = (sub = [])"
| "py_in sub (c # s) = (startswith (c # s) sub \<or> py_in sub s)"

section \<open>Module constants\<close>

definition CONFIG_DIR :: string where
  "CONFIG_DIR = ''.''"

definition EXTENSIONS :: "string list" where
  "EXTENSIONS = [''.cfg'', ''.conf'', ''.txt'', '''']"

definition IGNORE_COMMENTS :: bool where
  "IGNORE_COMMENTS = True"

definition COMMENT_PREFIXES :: "string list" where
  "COMMENT_PREFIXES = [''#'', ''!'', ''//'']"

definition REFERENCIA_KEYWORD :: string where
  "REFERENCIA_KEYWORD = ''mpls''"

section \<open>Errors and the file system\<close>

datatype py_error = OSError | IndexError | ZeroDivisionError

text \<open>
  What the program sees of its environment. A path names a regular file or something
  else; a regular file either opens, giving its lines (already decoded: the source
  decodes with \<open>errors="ignore"\<close>, so decoding never fails), or \<open>open\<close> raises.
\<close>

datatype node = NotRegular | Regular "string list option"

record filesystem =
  isdir :: "string \<Rightarrow> bool"
  listdir :: "string \<Rightarrow> string list option"
  node :: "string \<Rightarrow> node"
  writable :: "string \<Rightarrow> bool"

definition isfile :: "filesystem \<Rightarrow> string \<Rightarrow> bool" where
  "isfile fs ruta = (case node fs ruta of NotRegular \<Rightarrow> False | Regular _ \<Rightarrow> True)"

definition open_read :: "filesystem \<Rightarrow> string \<Rightarrow> py_error + string list" where
  "open_read fs ruta =
     (case node fs ruta of
        Regular (Some lineas) \<Rightarrow> Inr lineas
      | _ \<Rightarrow> Inl OSError)"

section \<open>Counting code lines\<close>

definition es_linea_valida :: "string \<Rightarrow> bool" where
  "es_linea_valida linea =
     (let linea_limpia = py_strip linea
      in if linea_limpia = [] then False
         else if IGNORE_COMMENTS \<and> startswith_any linea_limpia COMMENT_PREFIXES then False
         else True)"

fun contar_bucle :: "string list \<Rightarrow> int \<Rightarrow> int" where
  \<comment> \<open>the \<open>for linea in f\<close> loop of \<open>contar_lineas_config\<close>, on the counter\<close>
  "contar_bucle [] contador = contador"
| "contar_bucle (linea # resto) contador =
     contar_bucle resto (if es_linea_valida linea then contador + 1 else contador)"

definition contar_lineas_config :: "filesystem \<Rightarrow> string \<Rightarrow> py_error + int" where
  "contar_lineas_config fs ruta_archivo =
     (case open_read fs ruta_archivo of
        Inl e \<Rightarrow> Inl e
      | Inr lineas \<Rightarrow> Inr (contar_bucle lineas 0))"

section \<open>Paths and enumeration of the candidate files\<close>

definition rfind :: "char \<Rightarrow> string \<Rightarrow> int" where
  \<comment> \<open>\<open>p.rfind(c)\<close>: the index of the last \<open>c\<close> in \<open>p\<close>, or \<open>-1\<close>\<close>
  "rfind c p =
     (let r = takeWhile (\<lambda>x. x \<noteq> c) (rev p)
      in if length r = length p then - 1 else int (length p) - int (length r) - 1)"

definition os_path_join :: "string \<Rightarrow> string \<Rightarrow> string" where
  \<comment> \<open>\<open>posixpath.join(a, b)\<close>\<close>
  "os_path_join a b =
     (if startswith b ''/'' then b
      else if a = [] \<or> endswith a ''/'' then a @ b
      else a @ ''/'' @ b)"

definition os_path_basename :: "string \<Rightarrow> string" where
  \<comment> \<open>\<open>posixpath.basename(p)\<close>: what follows the last slash\<close>
  "os_path_basename p = drop (nat (rfind CHR ''/'' p + 1)) p"

definition os_path_splitext :: "string \<Rightarrow> string \<times> string" where
  \<comment> \<open>\<open>posixpath.splitext(p)\<close>: the extension starts at the last dot of the last
      component, unless only dots precede it there\<close>
  "os_path_splitext p =
     (let sepIndex = rfind CHR ''/'' p; dotIndex = rfind CHR ''.'' p
      in if dotIndex > sepIndex \<and>
            list_ex (\<lambda>c. c \<noteq> CHR ''.'') (drop (nat (sepIndex + 1)) (take (nat dotIndex) p))
         then (take (nat dotIndex) p, drop (nat dotIndex) p)
         else (p, []))"

fun obtener_bucle :: "filesystem \<Rightarrow> string \<Rightarrow> string list \<Rightarrow> string list" where
  \<comment> \<open>the \<open>for entrada in os.listdir(directorio)\<close> loop: the paths appended, in order\<close>
  "obtener_bucle fs directorio [] = []"
| "obtener_bucle fs directorio (entrada # resto) =
     (let ruta = os_path_join directorio entrada
      in if isfile fs ruta \<and> snd (os_path_splitext entrada) \<in> set EXTENSIONS
         then ruta # obtener_bucle fs directorio resto
         else obtener_bucle fs directorio resto)"

definition obtener_archivos_config :: "filesystem \<Rightarrow> string \<Rightarrow> py_error + string list" where
  "obtener_archivos_config fs directorio =
     (case listdir fs directorio of
        None \<Rightarrow> Inl OSError
      | Some entradas \<Rightarrow> Inr (sort (obtener_bucle fs directorio entradas)))"

section \<open>Floating point\<close>

text \<open>
  A finite double is modelled as the rational number it denotes. Each operation computes
  the exact result and rounds it to 53 significant bits, ties to even, as IEEE 754 does.
  The exponent range is not limited: overflow and subnormal numbers, which need a line
  count above \<open>2 ^ 1023\<close>, are outside the model.
\<close>

type_synonym pyfloat = rat

definition pow2 :: "int \<Rightarrow> rat" where
  "pow2 k = (if 0 \<le> k then 2 ^ nat k else 1 / 2 ^ nat (- k))"

definition round_half_even :: "rat \<Rightarrow> int" where
  "round_half_even q =
     (let f = \<lfloor>q\<rfloor>; r = q - of_int f
      in if r < 1 / 2 then f
         else if 1 / 2 < r then f + 1
         else if even f then f else f + 1)"

definition binade :: "rat \<Rightarrow> int" where
  \<comment> \<open>for \<open>q > 0\<close>, the \<open>e\<close> with \<open>2 ^ e \<le> q < 2 ^ (e + 1)\<close>\<close>
  "binade q =
     (let a = fst (quotient_of q); b = snd (quotient_of q);
          k = bitlen a - bitlen b
      in if pow2 k \<le> q then k else k - 1)"

definition fl :: "rat \<Rightarrow> pyfloat" where
  \<comment> \<open>the double nearest to \<open>q\<close>\<close>
  "fl q =
     (if q = 0 then 0
      else let u = pow2 (binade \<bar>q\<bar> - 52)
           in of_int (round_half_even (q / u)) * u)"

definition float_of_int :: "int \<Rightarrow> pyfloat" where
  "float_of_int n = fl (of_int n)"

definition int_truediv :: "int \<Rightarrow> int \<Rightarrow> py_error + pyfloat" where
  \<comment> \<open>\<open>a / b\<close> on two ints: correctly rounded, \<open>ZeroDivisionError\<close> when \<open>b\<close> is zero\<close>
  "int_truediv a b = (if b = 0 then Inl ZeroDivisionError else Inr (fl (of_int a / of_int b)))"

definition float_mul :: "pyfloat \<Rightarrow> pyfloat \<Rightarrow> pyfloat" where
  "float_mul x y = fl (x * y)"

definition py_round :: "pyfloat \<Rightarrow> nat \<Rightarrow> pyfloat" where
  \<comment> \<open>\<open>round(x, ndigits)\<close>: the exact value of \<open>x\<close> rounded to \<open>ndigits\<close> decimals, ties to
      even, then the double nearest to that decimal\<close>
  "py_round x ndigits = fl (of_int (round_half_even (x * 10 ^ ndigits)) / 10 ^ ndigits)"

section \<open>Comparison records\<close>

record resultado =
  archivo :: string
  lineas_codigo :: int
  diff_vs_min_abs :: "int option"
  diff_vs_min_pct :: "pyfloat option"
  diff_vs_ref_abs :: "int option"
  diff_vs_ref_pct :: "pyfloat option"

definition es_referencia :: "resultado \<Rightarrow> bool" where
  \<comment> \<open>the condition of the \<open>if\<close> in \<open>encontrar_referencia\<close>\<close>
  "es_referencia r =
     (py_in (py_lower REFERENCIA_KEYWORD) (py_lower (archivo r)) \<and>
      \<not> py_in ''srv'' (py_lower (archivo r)))"

fun encontrar_referencia :: "resultado list \<Rightarrow> resultado option" where
  "encontrar_referencia [] = None"
| "encontrar_referencia (r # resultados) =
     (if es_referencia r then Some r else encontrar_referencia resultados)"

definition guardar_csv :: "filesystem \<Rightarrow> resultado list \<Rightarrow> string \<Rightarrow> py_error + resultado list" where
  \<comment> \<open>the rows written after the header, in the order written; \<open>open(nombre_csv, "w")\<close>
      raises when the file cannot be written\<close>
  "guardar_csv fs resultados nombre_csv =
     (if writable fs nombre_csv then Inr resultados else Inl OSError)"

section \<open>The main program\<close>

fun conteo :: "filesystem \<Rightarrow> string list \<Rightarrow> resultado list \<Rightarrow> py_error + resultado list" where
  \<comment> \<open>step 1, the \<open>for ruta in archivos\<close> loop on the list \<open>resultados\<close>\<close>
  "conteo fs [] resultados = Inr resultados"
| "conteo fs (ruta # resto) resultados =
     (case contar_lineas_config fs ruta of
        Inl e \<Rightarrow> Inl e
      | Inr num_lineas \<Rightarrow>
          conteo fs resto
            (resultados @
             [\<lparr>archivo = os_path_basename ruta, lineas_codigo = num_lineas,
               diff_vs_min_abs = None, diff_vs_min_pct = None,
               diff_vs_ref_abs = None, diff_vs_ref_pct = None\<rparr>]))"

definition primero :: "'a list \<Rightarrow> py_error + 'a" where
  \<comment> \<open>\<open>xs[0]\<close>\<close>
  "primero xs = (case xs of [] \<Rightarrow> Inl IndexError | x # _ \<Rightarrow> Inr x)"

definition ultimo :: "'a list \<Rightarrow> py_error + 'a" where
  \<comment> \<open>\<open>xs[-1]\<close>\<close>
  "ultimo xs = (if xs = [] then Inl IndexError else Inr (last xs))"

definition porcentaje :: "int \<Rightarrow> int \<Rightarrow> py_error + pyfloat" where
  \<comment> \<open>\<open>(diff / base * 100) if base > 0 else 0.0\<close>\<close>
  "porcentaje diff base =
     (if base > 0
      then (case int_truediv diff base of
              Inl e \<Rightarrow> Inl e
            | Inr q \<Rightarrow> Inr (float_mul q (float_of_int 100)))
      else Inr 0)"

definition diferencias_cuerpo :: "int \<Rightarrow> int option \<Rightarrow> resultado \<Rightarrow> py_error + resultado" where
  \<comment> \<open>step 4, the body of the loop on one record\<close>
  "diferencias_cuerpo min_lineas ref_lineas r =
     (let lineas = lineas_codigo r;
          diff_min_abs = lineas - min_lineas
      in case porcentaje diff_min_abs min_lineas of
           Inl e \<Rightarrow> Inl e
         | Inr diff_min_pct \<Rightarrow>
             (let r1 = r\<lparr>diff_vs_min_abs := Some diff_min_abs,
                         diff_vs_min_pct := Some (py_round diff_min_pct 2)\<rparr>
              in case ref_lineas of
                   None \<Rightarrow> Inr r1
                 | Some rl \<Rightarrow>
                     (let diff_ref_abs = lineas - rl
                      in case porcentaje diff_ref_abs rl of
                           Inl e \<Rightarrow> Inl e
                         | Inr diff_ref_pct \<Rightarrow>
                             Inr (r1\<lparr>diff_vs_ref_abs := Some diff_ref_abs,
                                     diff_vs_ref_pct := Some (py_round diff_ref_pct 2)\<rparr>))))"

fun diferencias :: "int \<Rightarrow> int option \<Rightarrow> resultado list \<Rightarrow> py_error + resultado list" where
  \<comment> \<open>step 4, the loop over \<open>resultados_ordenados\<close>\<close>
  "diferencias min_lineas ref_lineas [] = Inr []"
| "diferencias min_lineas ref_lineas (r # resto) =
     (case diferencias_cuerpo min_lineas ref_lineas r of
        Inl e \<Rightarrow> Inl e
      | Inr r' \<Rightarrow>
          (case diferencias min_lineas ref_lineas resto of
             Inl e \<Rightarrow> Inl e
           | Inr resto' \<Rightarrow> Inr (r' # resto')))"

record informe =
  filas :: "resultado list"
  mas_simple :: resultado
  mas_complejo :: resultado
  diff_extremos :: int
  diff_extremos_pct :: pyfloat
  referencia :: "resultado option"

text \<open>
  Steps 2 to 5 of \<open>main\<close>. Python's \<open>sorted\<close> with a key is a stable sort, as \<open>sort_key\<close>
  is. The dicts \<open>mas_simple\<close>, \<open>mas_complejo\<close> and \<open>referencia\<close> are elements of
  \<open>resultados_ordenados\<close>, not copies: after the loop of step 4 each carries the fields the
  loop wrote to it, which is what the loop body returns on it.
\<close>

definition analisis :: "resultado list \<Rightarrow> py_error + informe" where
  "analisis resultados =
     (let resultados_ordenados = sort_key lineas_codigo resultados
      in case primero resultados_ordenados of
           Inl e \<Rightarrow> Inl e
         | Inr simple \<Rightarrow>
        (case ultimo resultados_ordenados of
           Inl e \<Rightarrow> Inl e
         | Inr complejo \<Rightarrow>
        (let min_lineas = lineas_codigo simple;
             max_lineas = lineas_codigo complejo;
             ref = encontrar_referencia resultados_ordenados;
             ref_lineas = map_option lineas_codigo ref
         in case diferencias min_lineas ref_lineas resultados_ordenados of
              Inl e \<Rightarrow> Inl e
            | Inr actualizados \<Rightarrow>
           (case porcentaje (max_lineas - min_lineas) max_lineas of
              Inl e \<Rightarrow> Inl e
            | Inr pct \<Rightarrow>
                Inr \<lparr>filas = actualizados,
                     mas_simple = hd actualizados,
                     mas_complejo = last actualizados,
                     diff_extremos = max_lineas - min_lineas,
                     diff_extremos_pct = pct,
                     referencia =
                       (case ref of
                          None \<Rightarrow> None
                        | Some r \<Rightarrow>
                            (case diferencias_cuerpo min_lineas ref_lineas r of
                               Inl e \<Rightarrow> None
                             | Inr r' \<Rightarrow> Some r'))\<rparr>))))"

datatype salida =
    ErrorCarpeta
  | AvisoSinArchivos
  | Excepcion py_error
  | Completado informe "resultado list"

text \<open>
  The outcomes of \<open>main\<close>: the two notices printed before an early return, an exception
  that nothing catches, or the run to the end, with the values of the summary and the rows
  written to the CSV file.
\<close>

definition main :: "filesystem \<Rightarrow> salida" where
  "main fs =
     (if \<not> isdir fs CONFIG_DIR then ErrorCarpeta
      else case obtener_archivos_config fs CONFIG_DIR of
             Inl e \<Rightarrow> Excepcion e
           | Inr archivos \<Rightarrow>
               if archivos = [] then AvisoSinArchivos
               else (case conteo fs archivos [] of
                       Inl e \<Rightarrow> Excepcion e
                     | Inr resultados \<Rightarrow>
                    (case analisis resultados of
                       Inl e \<Rightarrow> Excepcion e
                     | Inr rep \<Rightarrow>
                    (case guardar_csv fs (filas rep) ''resumen_configuraciones.csv'' of
                       Inl e \<Rightarrow> Excepcion e
                     | Inr csv \<Rightarrow> Completado rep csv))))"

section \<open>The specification's notions\<close>

definition linea_de_codigo :: "string \<Rightarrow> bool" where
  \<comment> \<open>a code line in the specification's words: not blank once trimmed, and the
      trimmed line starts with none of the comment prefixes\<close>
  "linea_de_codigo linea =
     (py_strip linea \<noteq> [] \<and>
      \<not> (\<exists>p \<in> set [''#'', ''!'', ''//'']. prefix p (py_strip linea)))"

definition nombre_de_referencia :: "string \<Rightarrow> bool" where
  \<comment> \<open>a reference name in the specification's words: lowercased, it contains the
      keyword \<open>mpls\<close> and does not contain \<open>srv\<close>\<close>
  "nombre_de_referencia nombre =
     (sublist ''mpls'' (py_lower nombre) \<and> \<not> sublist ''srv'' (py_lower nombre))"

definition referencia_elegida :: "salida \<Rightarrow> resultado option" where
  \<comment> \<open>the reference that a run identifies, if the run completes and finds one\<close>
  "referencia_elegida s =
     (case s of Completado rep csv \<Rightarrow> referencia rep | _ \<Rightarrow> None)"



definition redondeo_2_decimales :: "rat \<Rightarrow> rat \<Rightarrow> bool" where
  \<comment> \<open>rounding to 2 decimal places in the specification's words: \<open>y\<close> is the double
      nearest to \<open>k / 100\<close>, where \<open>k\<close> is the integer nearest to \<open>100 x\<close>, the even one
      of the two when \<open>100 x\<close> lies half way between them\<close>
  "redondeo_2_decimales x y =
     (\<exists>k :: int. y = fl (of_int k / 100) \<and>
        \<bar>of_int k - x * 100\<bar> \<le> 1 / 2 \<and>
        (\<bar>of_int k - x * 100\<bar> = 1 / 2 \<longrightarrow> even k))"

section \<open>The loops of \<open>main\<close> as total functions\<close>

text \<open>
  Two loops of \<open>main\<close> are written above with every failure of the operations they
  call. What they compute when nothing fails is written here once, for the proofs.
\<close>

definition registro_inicial :: "filesystem \<Rightarrow> string \<Rightarrow> resultado" where
  \<comment> \<open>the record that step 1 appends for a path whose file opens\<close>
  "registro_inicial fs ruta =
     \<lparr>archivo = os_path_basename ruta,
      lineas_codigo = (case contar_lineas_config fs ruta of Inl e \<Rightarrow> 0 | Inr n \<Rightarrow> n),
      diff_vs_min_abs = None, diff_vs_min_pct = None,
      diff_vs_ref_abs = None, diff_vs_ref_pct = None\<rparr>"

definition porcentaje_valor :: "int \<Rightarrow> int \<Rightarrow> pyfloat" where
  \<comment> \<open>the value of \<open>porcentaje\<close>\<close>
  "porcentaje_valor diff base =
     (if base > 0 then float_mul (fl (of_int diff / of_int base)) (float_of_int 100) else 0)"

definition actualizado :: "int \<Rightarrow> int option \<Rightarrow> resultado \<Rightarrow> resultado" where
  \<comment> \<open>the record as the body of the loop of step 4 leaves it\<close>
  "actualizado min_lineas ref_lineas r =
     (let r1 = r\<lparr>diff_vs_min_abs := Some (lineas_codigo r - min_lineas),
                 diff_vs_min_pct :=
                   Some (py_round (porcentaje_valor (lineas_codigo r - min_lineas) min_lineas) 2)\<rparr>
      in case ref_lineas of
           None \<Rightarrow> r1
         | Some rl \<Rightarrow>
             r1\<lparr>diff_vs_ref_abs := Some (lineas_codigo r - rl),
                diff_vs_ref_pct :=
                  Some (py_round (porcentaje_valor (lineas_codigo r - rl) rl) 2)\<rparr>)"

section \<open>Example directories\<close>

definition directorio_ejemplo :: filesystem where
  "directorio_ejemplo =
     \<lparr>isdir = (\<lambda>d. d = ''.''),
      listdir = (\<lambda>d. if d = ''.''
                      then Some [''pe1-mpls.txt'', ''viejas'', ''pe1-mpls-srv6.txt'', ''notas.md'']
                      else None),
      node = (\<lambda>p. if p = ''./pe1-mpls.txt''
                   then Regular (Some (''! PE-1'' # '''' # ''  # mpls'' # replicate 10 '' mpls ip ''))
                   else if p = ''./pe1-mpls-srv6.txt''
                   then Regular (Some (replicate 14 ''segment-routing'' @ ['' // fin'']))
                   else if p = ''./notas.md'' then Regular (Some [''pendiente''])
                   else NotRegular),
      writable = (\<lambda>p. True)\<rparr>"

definition registros_ejemplo :: "resultado list" where
  "registros_ejemplo =
     [\<lparr>archivo = ''pe1-mpls-srv6.txt'', lineas_codigo = 14,
        diff_vs_min_abs = None, diff_vs_min_pct = None,
        diff_vs_ref_abs = None, diff_vs_ref_pct = None\<rparr>,
      \<lparr>archivo = ''pe1-mpls.txt'', lineas_codigo = 10,
        diff_vs_min_abs = None, diff_vs_min_pct = None,
        diff_vs_ref_abs = None, diff_vs_ref_pct = None\<rparr>,
      \<lparr>archivo = ''PE1-SR-MPLS.cfg'', lineas_codigo = 10,
        diff_vs_min_abs = None, diff_vs_min_pct = None,
        diff_vs_ref_abs = None, diff_vs_ref_pct = None\<rparr>]"

definition directorio_ilegible :: filesystem where
  \<comment> \<open>the example directory, with a file that does not open\<close>
  "directorio_ilegible =
     directorio_ejemplo
       \<lparr>node := (\<lambda>p. if p = ''./pe1-mpls.txt'' then Regular None
                      else node directorio_ejemplo p)\<rparr>"

definition directorio_sin_candidatos :: filesystem where
  "directorio_sin_candidatos =
     directorio_ejemplo
       \<lparr>listdir := (\<lambda>d. if d = ''.''
                        then Some [''viejas'', ''notas.md'', ''resumen_configuraciones.csv'']
                        else None)\<rparr>"

definition directorio_sin_referencia :: filesystem where
  "directorio_sin_referencia =
     \<lparr>isdir = (\<lambda>d. d = ''.''),
      listdir = (\<lambda>d. if d = ''.'' then Some [''pe1-srv6.cfg'', ''pe1-ospf''] else None),
      node = (\<lambda>p. if p = ''./pe1-srv6.cfg''
                   then Regular (Some [''segment-routing'', '' srv6'', ''!'', ''  locators''])
                   else if p = ''./pe1-ospf''
                   then Regular (Some [''router ospf 1'', '''', '' network 10.0.0.0''])
                   else NotRegular),
      writable = (\<lambda>p. True)\<rparr>"

definition fila_mpls :: resultado where
  "fila_mpls =
     \<lparr>archivo = ''pe1-mpls.txt'', lineas_codigo = 10,
      diff_vs_min_abs = Some 0, diff_vs_min_pct = Some 0,
      diff_vs_ref_abs = Some 0, diff_vs_ref_pct = Some 0\<rparr>"

definition fila_sr_mpls :: resultado where
  "fila_sr_mpls =
     \<lparr>archivo = ''PE1-SR-MPLS.cfg'', lineas_codigo = 10,
      diff_vs_min_abs = Some 0, diff_vs_min_pct = Some 0,
      diff_vs_ref_abs = Some 0, diff_vs_ref_pct = Some 0\<rparr>"

definition fila_srv6 :: resultado where
  "fila_srv6 =
     \<lparr>archivo = ''pe1-mpls-srv6.txt'', lineas_codigo = 14,
      diff_vs_min_abs = Some 4, diff_vs_min_pct = Some 40,
      diff_vs_ref_abs = Some 4, diff_vs_ref_pct = Some 40\<rparr>"

definition informe_registros :: informe where
  \<comment> \<open>what steps 2 to 5 compute on \<open>registros_ejemplo\<close>\<close>
  "informe_registros =
     \<lparr>filas = [fila_mpls, fila_sr_mpls, fila_srv6],
      mas_simple = fila_mpls, mas_complejo = fila_srv6,
      diff_extremos = 4,
      diff_extremos_pct = 2010535547933257 / 70368744177664,
      referencia = Some fila_mpls\<rparr>"

definition informe_ejemplo :: informe where
  \<comment> \<open>the report of the run in \<open>directorio_ejemplo\<close>\<close>
  "informe_ejemplo = informe_registros\<lparr>filas := [fila_mpls, fila_srv6]\<rparr>"

definition fila_ospf :: resultado where
  "fila_ospf =
     \<lparr>archivo = ''pe1-ospf'', lineas_codigo = 2,
      diff_vs_min_abs = Some 0, diff_vs_min_pct = Some 0,
      diff_vs_ref_abs = None, diff_vs_ref_pct = None\<rparr>"

definition fila_srv6_cfg :: resultado where
  "fila_srv6_cfg =
     \<lparr>archivo = ''pe1-srv6.cfg'', lineas_codigo = 3,
      diff_vs_min_abs = Some 1, diff_vs_min_pct = Some 50,
      diff_vs_ref_abs = None, diff_vs_ref_pct = None\<rparr>"

definition informe_sin_referencia :: informe where
  \<comment> \<open>the report of the run in \<open>directorio_sin_referencia\<close>\<close>
  "informe_sin_referencia =
     \<lparr>filas = [fila_ospf, fila_srv6_cfg],
      mas_simple = fila_ospf, mas_complejo = fila_srv6_cfg,
      diff_extremos = 1,
      diff_extremos_pct = 2345624805922133 / 70368744177664,
      referencia = None\<rparr>"



definition registros_tercios :: "resultado list" where
  \<comment> \<open>counts whose percentages are not multiples of a hundredth: 1/3 and 4/3\<close>
  "registros_tercios =
     [\<lparr>archivo = ''pe1-srv6.txt'', lineas_codigo = 4,
        diff_vs_min_abs = None, diff_vs_min_pct = None,
        diff_vs_ref_abs = None, diff_vs_ref_pct = None\<rparr>,
      \<lparr>archivo = ''pe1-mpls.txt'', lineas_codigo = 3,
        diff_vs_min_abs = None, diff_vs_min_pct = None,
        diff_vs_ref_abs = None, diff_vs_ref_pct = None\<rparr>,
      \<lparr>archivo = ''pe1-sr.txt'', lineas_codigo = 7,
        diff_vs_min_abs = None, diff_vs_min_pct = None,
        diff_vs_ref_abs = None, diff_vs_ref_pct = None\<rparr>]"

definition registros_base_cero :: "resultado list" where
  \<comment> \<open>the least count, which is also the reference's, is zero\<close>
  "registros_base_cero =
     [\<lparr>archivo = ''pe1-srv6.txt'', lineas_codigo = 5,
        diff_vs_min_abs = None, diff_vs_min_pct = None,
        diff_vs_ref_abs = None, diff_vs_ref_pct = None\<rparr>,
      \<lparr>archivo = ''pe1-mpls.txt'', lineas_codigo = 0,
        diff_vs_min_abs = None, diff_vs_min_pct = None,
        diff_vs_ref_abs = None, diff_vs_ref_pct = None\<rparr>]"

definition registros_todo_cero :: "resultado list" where
  \<comment> \<open>the greatest count is zero\<close>
  "registros_todo_cero =
     [\<lparr>archivo = ''pe1-srv6.txt'', lineas_codigo = 0,
        diff_vs_min_abs = None, diff_vs_min_pct = None,
        diff_vs_ref_abs = None, diff_vs_ref_pct = None\<rparr>,
      \<lparr>archivo = ''pe1-mpls.txt'', lineas_codigo = 0,
        diff_vs_min_abs = None, diff_vs_min_pct = None,
        diff_vs_ref_abs = None, diff_vs_ref_pct = None\<rparr>]"

section \<open>Strings: the library's notions\<close>

lemma startswith_prefix: "startswith s p = prefix p s"
  by (induction s p rule: startswith.induct) auto

lemma py_in_sublist: "py_in sub s = sublist sub s"
  by (induction s) (auto simp: startswith_prefix sublist_Cons_right)

lemma dropWhile_all_iff:
  "(\<forall>x \<in> set (dropWhile P xs). P x) \<longleftrightarrow> (\<forall>x \<in> set xs. P x)"
  by (induction xs) auto

lemma py_strip_empty_iff: "py_strip s = [] \<longleftrightarrow> (\<forall>c \<in> set s. py_isspace c)"
  by (simp add: py_strip_def dropWhile_all_iff)

text \<open>
  What \<open>py_strip\<close> removes is whitespace, at both ends and nothing else; what it leaves
  neither starts nor ends with whitespace.
\<close>

lemma py_strip_decompose:
  "\<exists>a b. s = a @ py_strip s @ b \<and>
         (\<forall>c \<in> set a. py_isspace c) \<and> (\<forall>c \<in> set b. py_isspace c)"
proof -
  let ?t = "dropWhile py_isspace s"
  let ?a = "takeWhile py_isspace s"
  let ?b = "rev (takeWhile py_isspace (rev ?t))"
  have "rev (dropWhile py_isspace (rev ?t)) @ ?b =
        rev (takeWhile py_isspace (rev ?t) @ dropWhile py_isspace (rev ?t))"
    by (simp only: rev_append)
  also have "\<dots> = rev (rev ?t)"
    by (simp only: takeWhile_dropWhile_id)
  also have "\<dots> = ?t"
    by (simp only: rev_rev_ident)
  finally have t: "?t = py_strip s @ ?b"
    by (simp only: py_strip_def)
  have "s = ?a @ ?t"
    by simp
  with t have "s = ?a @ py_strip s @ ?b"
    by simp
  moreover have "\<forall>c \<in> set ?a. py_isspace c"
    by (auto dest: set_takeWhileD)
  moreover have "\<forall>c \<in> set ?b. py_isspace c"
    by (auto dest: set_takeWhileD)
  ultimately show ?thesis
    by blast
qed

lemma last_dropWhile: "dropWhile P xs \<noteq> [] \<Longrightarrow> last (dropWhile P xs) = last xs"
  by (induction xs) (auto split: if_splits)

lemma py_strip_ends:
  assumes "py_strip s \<noteq> []"
  shows "\<not> py_isspace (hd (py_strip s)) \<and> \<not> py_isspace (last (py_strip s))"
proof -
  let ?t = "dropWhile py_isspace s"
  let ?r = "dropWhile py_isspace (rev ?t)"
  from assms have r: "?r \<noteq> []"
    by (simp add: py_strip_def)
  have t: "?t \<noteq> []"
  proof
    assume "?t = []"
    then have "?r = []"
      by (simp only: rev.simps dropWhile.simps)
    with r show False
      by (rule notE)
  qed
  have "last (py_strip s) = hd ?r"
    using r by (simp add: py_strip_def last_rev)
  then have l: "\<not> py_isspace (last (py_strip s))"
    using hd_dropWhile [OF r] by simp
  have "hd (py_strip s) = last ?r"
    using r by (simp add: py_strip_def hd_rev)
  also have "\<dots> = last (rev ?t)"
    using r by (rule last_dropWhile)
  also have "\<dots> = hd ?t"
    using t by (simp add: last_rev)
  finally have "\<not> py_isspace (hd (py_strip s))"
    using hd_dropWhile [OF t] by simp
  with l show ?thesis
    by simp
qed

section \<open>Counting code lines: properties\<close>

lemma es_linea_valida_spec: "es_linea_valida linea = linea_de_codigo linea"
  by (simp add: es_linea_valida_def linea_de_codigo_def Let_def IGNORE_COMMENTS_def
      COMMENT_PREFIXES_def startswith_any_def startswith_prefix)

lemma contar_bucle_filter:
  "contar_bucle lineas contador = contador + int (length (filter es_linea_valida lineas))"
  by (induction lineas arbitrary: contador) auto

text \<open>
  C1. For every content of a file that opens, \<open>contar_lineas_config\<close> returns the number
  of its lines that are not blank once trimmed and whose trimmed form starts with none of
  \<open>#\<close>, \<open>!\<close>, \<open>//\<close> (comments are ignored: the flag is true). The count is at least zero
  and at most the number of lines.
\<close>

theorem contar_lineas_config_cuenta:
  assumes "node fs ruta = Regular (Some lineas)"
  shows "IGNORE_COMMENTS \<and>
         (\<exists>n. contar_lineas_config fs ruta = Inr n \<and>
              n = int (length (filter linea_de_codigo lineas)) \<and>
              0 \<le> n \<and> n \<le> int (length lineas))"
proof -
  have "es_linea_valida = linea_de_codigo"
    by (rule ext) (rule es_linea_valida_spec)
  then show ?thesis
    using assms
    by (simp add: contar_lineas_config_def open_read_def contar_bucle_filter
        IGNORE_COMMENTS_def)
qed

theorem contar_lineas_config_cuenta_witness:
  "node directorio_ejemplo ''./pe1-mpls.txt'' =
     Regular (Some (''! PE-1'' # '''' # ''  # mpls'' # replicate 10 '' mpls ip '')) \<and>
   contar_lineas_config directorio_ejemplo ''./pe1-mpls.txt'' = Inr 10"
proof -
  have h: "node directorio_ejemplo ''./pe1-mpls.txt'' =
     Regular (Some (''! PE-1'' # '''' # ''  # mpls'' # replicate 10 '' mpls ip ''))"
    by (simp add: directorio_ejemplo_def)
  have n: "int (length (filter linea_de_codigo
              (''! PE-1'' # '''' # ''  # mpls'' # replicate 10 '' mpls ip ''))) = 10"
    by code_simp
  show ?thesis
    using contar_lineas_config_cuenta [OF h] h n by auto
qed

section \<open>Floating point: zero\<close>

lemma round_half_even_0: "round_half_even 0 = 0"
  by (simp add: round_half_even_def)

lemma fl_0: "fl 0 = 0"
  by (simp add: fl_def)

lemma py_round_0: "py_round 0 ndigits = 0"
  by (simp add: py_round_def round_half_even_0 fl_0)

lemma porcentaje_valor_0: "porcentaje_valor 0 base = 0"
  by (simp add: porcentaje_valor_def float_mul_def fl_0)

section \<open>Floating point: the rounding\<close>

text \<open>
  The rounding \<open>fl\<close> is round-to-nearest with 53 significant bits: \<open>binade\<close> finds the
  power of two at or below a positive rational, the result of \<open>fl\<close> is an integer of 53
  bits times the unit of that binade, and it is at most half a unit away. Halves go to the
  even integer.
\<close>

lemma pow2_powi: "pow2 k = 2 powi k"
  by (simp add: pow2_def power_int_def power_one_over)

lemma pow2_pos: "0 < pow2 k"
  by (simp add: pow2_powi)

lemma pow2_add: "pow2 (i + j) = pow2 i * pow2 j"
  by (simp add: pow2_powi power_int_add)

lemma pow2_diff: "pow2 (i - j) = pow2 i / pow2 j"
  by (simp add: pow2_powi power_int_diff)

lemma bitlen_pow2_bounds:
  assumes "0 < a"
  shows "pow2 (bitlen a - 1) \<le> of_int a \<and> of_int a < pow2 (bitlen a)"
proof -
  from bitlen_bounds [OF assms]
  have l: "2 ^ nat (bitlen a - 1) \<le> a" and u: "a < 2 ^ nat (bitlen a)"
    by simp_all
  have ge: "1 \<le> bitlen a"
    using assms by (auto simp: bitlen_alt_def)
  from l have "(of_int (2 ^ nat (bitlen a - 1)) :: rat) \<le> of_int a"
    by (simp only: of_int_le_iff)
  moreover from u have "(of_int a :: rat) < of_int (2 ^ nat (bitlen a))"
    by (simp only: of_int_less_iff)
  ultimately show ?thesis
    using ge by (simp add: pow2_def)
qed

lemma binade_bounds:
  assumes "0 < q"
  shows "pow2 (binade q) \<le> q \<and> q < pow2 (binade q + 1)"
proof -
  obtain a b where ab: "quotient_of q = (a, b)"
    by (cases "quotient_of q")
  then have b: "0 < b" and q: "q = of_int a / of_int b"
    by (simp_all add: quotient_of_denom_pos quotient_of_div)
  from assms q b have a: "0 < a"
    by (simp add: zero_less_divide_iff)
  let ?k = "bitlen a - bitlen b"
  from bitlen_pow2_bounds [OF a] have a1: "pow2 (bitlen a - 1) \<le> of_int a"
    and a2: "of_int a < pow2 (bitlen a)" by simp_all
  from bitlen_pow2_bounds [OF b] have b1: "pow2 (bitlen b - 1) \<le> of_int b"
    and b2: "of_int b < pow2 (bitlen b)" by simp_all
  have bpos: "(0::rat) < of_int b" using b by simp
  have "q < pow2 (bitlen a) / of_int b"
    unfolding q using a2 bpos by (simp add: divide_strict_right_mono)
  also have "\<dots> \<le> pow2 (bitlen a) / pow2 (bitlen b - 1)"
    using b1 pow2_pos [of "bitlen a"] pow2_pos [of "bitlen b - 1"]
    by (intro divide_left_mono) (simp_all add: less_imp_le)
  also have "\<dots> = pow2 (?k + 1)"
    by (simp add: pow2_diff [symmetric] algebra_simps)
  finally have up: "q < pow2 (?k + 1)" .
  have "pow2 (?k - 1) = pow2 (bitlen a - 1) / pow2 (bitlen b)"
    by (simp add: pow2_diff [symmetric] algebra_simps)
  also have "\<dots> < pow2 (bitlen a - 1) / of_int b"
    using b2 bpos pow2_pos [of "bitlen a - 1"]
    by (intro divide_strict_left_mono) simp_all
  also have "\<dots> \<le> q"
    unfolding q using a1 bpos by (simp add: divide_right_mono)
  finally have low: "pow2 (?k - 1) < q" .
  show ?thesis
  proof (cases "pow2 ?k \<le> q")
    case True
    with up ab show ?thesis
      by (simp add: binade_def)
  next
    case False
    with low ab show ?thesis
      by (simp add: binade_def)
  qed
qed

lemma round_half_even_error: "\<bar>of_int (round_half_even x) - x\<bar> \<le> 1 / 2"
proof -
  have "of_int \<lfloor>x\<rfloor> \<le> x" "x < of_int \<lfloor>x\<rfloor> + 1"
    by linarith+
  then show ?thesis
    by (auto simp: round_half_even_def Let_def)
qed

lemma round_half_even_of_int: "round_half_even (of_int n) = n"
  by (simp add: round_half_even_def)

lemma round_half_even_le:
  assumes "x \<le> of_int n"
  shows "round_half_even x \<le> n"
proof (cases "x = of_int n")
  case True
  then show ?thesis by (simp add: round_half_even_of_int)
next
  case False
  with assms have "x < of_int n" by simp
  then have "\<lfloor>x\<rfloor> < n" by (simp add: floor_less_iff)
  then show ?thesis
    by (auto simp: round_half_even_def Let_def)
qed

lemma round_half_even_ge:
  assumes "of_int n \<le> x"
  shows "n \<le> round_half_even x"
proof -
  from assms have "n \<le> \<lfloor>x\<rfloor>" by (simp add: le_floor_iff)
  then show ?thesis
    by (auto simp: round_half_even_def Let_def)
qed

lemma fl_error:
  assumes "q \<noteq> 0"
  shows "\<bar>fl q - q\<bar> \<le> pow2 (binade \<bar>q\<bar> - 53)"
proof -
  let ?u = "pow2 (binade \<bar>q\<bar> - 52)"
  have u: "0 < ?u" by (rule pow2_pos)
  have "fl q - q = (of_int (round_half_even (q / ?u)) - q / ?u) * ?u"
    using assms u by (simp add: fl_def Let_def algebra_simps)
  then have "\<bar>fl q - q\<bar> = \<bar>of_int (round_half_even (q / ?u)) - q / ?u\<bar> * ?u"
    using u by (simp add: abs_mult)
  also have "\<dots> \<le> 1 / 2 * ?u"
    using u round_half_even_error [of "q / ?u"] by (intro mult_right_mono) simp_all
  also have "1 / 2 * ?u = pow2 (binade \<bar>q\<bar> - 53)"
  proof -
    have "binade \<bar>q\<bar> - 53 = (binade \<bar>q\<bar> - 52) + (- 1)"
      by simp
    then have "pow2 (binade \<bar>q\<bar> - 53) = pow2 ((binade \<bar>q\<bar> - 52) + (- 1))"
      by (rule arg_cong)
    also have "\<dots> = ?u * pow2 (- 1)"
      by (rule pow2_add)
    finally show ?thesis
      by (simp add: pow2_def)
  qed
  finally show ?thesis .
qed

lemma fl_representable:
  assumes "q \<noteq> 0"
  shows "\<exists>m. fl q = of_int m * pow2 (binade \<bar>q\<bar> - 52) \<and> 2 ^ 52 \<le> \<bar>m\<bar> \<and> \<bar>m\<bar> \<le> 2 ^ 53"
proof -
  let ?e = "binade \<bar>q\<bar>"
  let ?u = "pow2 (?e - 52)"
  let ?m = "round_half_even (q / ?u)"
  have u: "0 < ?u" by (rule pow2_pos)
  from assms have "0 < \<bar>q\<bar>" by simp
  from binade_bounds [OF this] have lo: "pow2 ?e \<le> \<bar>q\<bar>" and hi: "\<bar>q\<bar> < pow2 (?e + 1)"
    by simp_all
  have e1: "pow2 ?e = 2 ^ 52 * ?u"
  proof -
    have "?e = 52 + (?e - 52)" by simp
    then have "pow2 ?e = pow2 (52 + (?e - 52))" by (rule arg_cong)
    also have "\<dots> = pow2 52 * ?u" by (rule pow2_add)
    finally show ?thesis by (simp add: pow2_def)
  qed
  have e2: "pow2 (?e + 1) = 2 ^ 53 * ?u"
  proof -
    have "?e + 1 = 53 + (?e - 52)" by simp
    then have "pow2 (?e + 1) = pow2 (53 + (?e - 52))" by (rule arg_cong)
    also have "\<dots> = pow2 53 * ?u" by (rule pow2_add)
    finally show ?thesis by (simp add: pow2_def)
  qed
  have abs_div: "\<bar>q / ?u\<bar> = \<bar>q\<bar> / ?u"
    using u by simp
  have l: "2 ^ 52 \<le> \<bar>q / ?u\<bar>"
    unfolding abs_div using lo u by (simp add: e1 pos_le_divide_eq)
  have h: "\<bar>q / ?u\<bar> \<le> 2 ^ 53"
    unfolding abs_div using hi u by (simp add: e2 pos_divide_le_eq less_imp_le)
  have m: "2 ^ 52 \<le> \<bar>?m\<bar> \<and> \<bar>?m\<bar> \<le> 2 ^ 53"
  proof (cases "0 \<le> q / ?u")
    case True
    with l h have a: "of_int (2 ^ 52) \<le> q / ?u" and b: "q / ?u \<le> of_int (2 ^ 53)"
      by simp_all
    from round_half_even_ge [OF a] round_half_even_le [OF b] show ?thesis
      by simp
  next
    case False
    with l h have a: "q / ?u \<le> of_int (- (2 ^ 52))" and b: "of_int (- (2 ^ 53)) \<le> q / ?u"
      by simp_all
    from round_half_even_le [OF a] round_half_even_ge [OF b] show ?thesis
      by simp
  qed
  have "fl q = of_int ?m * ?u"
    using assms by (simp add: fl_def Let_def)
  with m show ?thesis
    by blast
qed

lemma round_half_even_tie:
  "round_half_even (of_int n + 1 / 2) = (if even n then n else n + 1)"
proof -
  have "\<lfloor>(of_int n :: rat) + 1 / 2\<rfloor> = n"
    by (simp add: floor_unique)
  then show ?thesis
    by (simp add: round_half_even_def Let_def)
qed

text \<open>
  \<open>round(x, 2)\<close> is the rounding to 2 decimal places of the specification, and that
  rounding has one result only.
\<close>

lemma round_half_even_tie_even:
  assumes "\<bar>of_int (round_half_even q) - q\<bar> = 1 / 2"
  shows "even (round_half_even q)"
proof -
  have b: "of_int \<lfloor>q\<rfloor> \<le> q" "q < of_int \<lfloor>q\<rfloor> + 1"
    by linarith+
  show ?thesis
  proof (cases "q - of_int \<lfloor>q\<rfloor> = 1 / 2")
    case True
    then show ?thesis
      by (simp add: round_half_even_def Let_def)
  next
    case False
    with assms b show ?thesis
      by (auto simp: round_half_even_def Let_def split: if_splits)
  qed
qed

lemma py_round_redondeo: "redondeo_2_decimales x (py_round x 2)"
proof -
  let ?k = "round_half_even (x * 100)"
  have "py_round x 2 = fl (of_int ?k / 100)"
    by (simp add: py_round_def)
  moreover have "\<bar>of_int ?k - x * 100\<bar> \<le> 1 / 2"
    by (rule round_half_even_error)
  moreover have "\<bar>of_int ?k - x * 100\<bar> = 1 / 2 \<longrightarrow> even ?k"
    using round_half_even_tie_even by blast
  ultimately show ?thesis
    unfolding redondeo_2_decimales_def by blast
qed

lemma redondeo_2_decimales_unico:
  assumes "redondeo_2_decimales x y" and "redondeo_2_decimales x y'"
  shows "y = y'"
proof -
  from assms(1) obtain k :: int where y: "y = fl (of_int k / 100)"
    and k: "\<bar>of_int k - x * 100\<bar> \<le> 1 / 2"
    and ke: "\<bar>of_int k - x * 100\<bar> = 1 / 2 \<longrightarrow> even k"
    unfolding redondeo_2_decimales_def by blast
  from assms(2) obtain k' :: int where y': "y' = fl (of_int k' / 100)"
    and k': "\<bar>of_int k' - x * 100\<bar> \<le> 1 / 2"
    and ke': "\<bar>of_int k' - x * 100\<bar> = 1 / 2 \<longrightarrow> even k'"
    unfolding redondeo_2_decimales_def by blast
  have "k = k'"
  proof (rule ccontr)
    assume ne: "k \<noteq> k'"
    from k k' have "\<bar>(of_int k :: rat) - of_int k'\<bar> \<le> 1"
      by linarith
    then have "\<bar>k - k'\<bar> \<le> 1"
      by (metis of_int_diff of_int_abs of_int_le_iff of_int_1)
    with ne have d: "\<bar>k - k'\<bar> = 1"
      by linarith
    then have dr: "\<bar>(of_int k :: rat) - of_int k'\<bar> = 1"
      by (metis of_int_diff of_int_abs of_int_1)
    with k k' have "\<bar>of_int k - x * 100\<bar> = 1 / 2" "\<bar>of_int k' - x * 100\<bar> = 1 / 2"
      by linarith+
    with ke ke' have "even k" "even k'"
      by simp_all
    then have "even (k - k')"
      by simp
    with d show False
      by presburger
  qed
  with y y' show ?thesis
    by simp
qed

lemma float_of_int_100: "float_of_int 100 = 100"
  by code_simp

section \<open>The loops never fail on a division\<close>

lemma porcentaje_Inr: "porcentaje diff base = Inr (porcentaje_valor diff base)"
  by (simp add: porcentaje_def porcentaje_valor_def int_truediv_def)

lemma diferencias_cuerpo_Inr:
  "diferencias_cuerpo min_lineas ref_lineas r = Inr (actualizado min_lineas ref_lineas r)"
  by (simp add: diferencias_cuerpo_def actualizado_def porcentaje_Inr Let_def
      split: option.splits)

lemma diferencias_map:
  "diferencias min_lineas ref_lineas rs = Inr (map (actualizado min_lineas ref_lineas) rs)"
  by (induction rs) (simp_all add: diferencias_cuerpo_Inr)

lemma actualizado_archivo [simp]: "archivo (actualizado mn rf r) = archivo r"
  by (simp add: actualizado_def Let_def split: option.splits)

lemma actualizado_lineas_codigo [simp]: "lineas_codigo (actualizado mn rf r) = lineas_codigo r"
  by (simp add: actualizado_def Let_def split: option.splits)

lemma actualizado_diff_vs_min_abs [simp]:
  "diff_vs_min_abs (actualizado mn rf r) = Some (lineas_codigo r - mn)"
  by (simp add: actualizado_def Let_def split: option.splits)

lemma actualizado_diff_vs_min_pct [simp]:
  "diff_vs_min_pct (actualizado mn rf r) =
     Some (py_round (porcentaje_valor (lineas_codigo r - mn) mn) 2)"
  by (simp add: actualizado_def Let_def split: option.splits)

lemma actualizado_diff_vs_ref_abs [simp]:
  "diff_vs_ref_abs (actualizado mn rf r) =
     (case rf of None \<Rightarrow> diff_vs_ref_abs r | Some rl \<Rightarrow> Some (lineas_codigo r - rl))"
  by (simp add: actualizado_def Let_def split: option.splits)

lemma actualizado_diff_vs_ref_pct [simp]:
  "diff_vs_ref_pct (actualizado mn rf r) =
     (case rf of
        None \<Rightarrow> diff_vs_ref_pct r
      | Some rl \<Rightarrow> Some (py_round (porcentaje_valor (lineas_codigo r - rl) rl) 2))"
  by (simp add: actualizado_def Let_def split: option.splits)

section \<open>The sorted records\<close>

lemma hd_sorted_Min:
  fixes zs :: "int list"
  assumes "sorted zs" "zs \<noteq> []"
  shows "hd zs = Min (set zs)"
proof (cases zs)
  case Nil
  with assms show ?thesis by simp
next
  case (Cons z zs')
  with assms have "\<forall>y \<in> set zs'. z \<le> y" by simp
  then have "Min (set (z # zs')) = z"
    by (intro Min_eqI) auto
  with Cons show ?thesis by simp
qed

lemma last_sorted_Max:
  fixes zs :: "int list"
  assumes "sorted zs" "zs \<noteq> []"
  shows "last zs = Max (set zs)"
proof -
  have "\<forall>y \<in> set zs. y \<le> last zs"
    using assms by (induction zs) auto
  moreover have "last zs \<in> set zs"
    using assms by simp
  ultimately show ?thesis
    by (intro Max_eqI [symmetric]) auto
qed

lemma hd_sort_key_Min:
  assumes "rs \<noteq> []"
  shows "lineas_codigo (hd (sort_key lineas_codigo rs)) = Min (lineas_codigo ` set rs)"
proof -
  let ?ord = "sort_key lineas_codigo rs"
  have ne: "?ord \<noteq> []"
    using assms by (metis length_sort list.size(3) length_0_conv)
  have "hd (map lineas_codigo ?ord) = Min (set (map lineas_codigo ?ord))"
    using ne by (intro hd_sorted_Min) simp_all
  with ne show ?thesis by (simp add: hd_map)
qed

lemma last_sort_key_Max:
  assumes "rs \<noteq> []"
  shows "lineas_codigo (last (sort_key lineas_codigo rs)) = Max (lineas_codigo ` set rs)"
proof -
  let ?ord = "sort_key lineas_codigo rs"
  have ne: "?ord \<noteq> []"
    using assms by (metis length_sort list.size(3) length_0_conv)
  have "last (map lineas_codigo ?ord) = Max (set (map lineas_codigo ?ord))"
    using ne by (intro last_sorted_Max) simp_all
  with ne show ?thesis by (simp add: last_map)
qed

section \<open>Steps 2 to 5\<close>

lemma analisis_Nil: "analisis [] = Inl IndexError"
  by (simp add: analisis_def primero_def)

lemma analisis_Inr:
  assumes "rs \<noteq> []"
  shows "analisis rs =
     Inr \<lparr>filas = map (actualizado (Min (lineas_codigo ` set rs))
                     (map_option lineas_codigo (encontrar_referencia (sort_key lineas_codigo rs))))
                   (sort_key lineas_codigo rs),
          mas_simple = hd (map (actualizado (Min (lineas_codigo ` set rs))
                     (map_option lineas_codigo (encontrar_referencia (sort_key lineas_codigo rs))))
                   (sort_key lineas_codigo rs)),
          mas_complejo = last (map (actualizado (Min (lineas_codigo ` set rs))
                     (map_option lineas_codigo (encontrar_referencia (sort_key lineas_codigo rs))))
                   (sort_key lineas_codigo rs)),
          diff_extremos = Max (lineas_codigo ` set rs) - Min (lineas_codigo ` set rs),
          diff_extremos_pct =
            porcentaje_valor (Max (lineas_codigo ` set rs) - Min (lineas_codigo ` set rs))
              (Max (lineas_codigo ` set rs)),
          referencia =
            map_option
              (actualizado (Min (lineas_codigo ` set rs))
                 (map_option lineas_codigo (encontrar_referencia (sort_key lineas_codigo rs))))
              (encontrar_referencia (sort_key lineas_codigo rs))\<rparr>"
proof -
  let ?ord = "sort_key lineas_codigo rs"
  have ne: "?ord \<noteq> []"
    using assms by (metis length_sort list.size(3) length_0_conv)
  then obtain x xs where ord: "?ord = x # xs"
    by (cases ?ord) auto
  have p: "primero ?ord = Inr (hd ?ord)"
    using ord by (simp add: primero_def)
  have u: "ultimo ?ord = Inr (last ?ord)"
    using ne by (simp add: ultimo_def)
  show ?thesis
    unfolding analisis_def Let_def p u
    by (simp add: diferencias_map porcentaje_Inr diferencias_cuerpo_Inr
        hd_sort_key_Min [OF assms] last_sort_key_Max [OF assms] split: option.splits)
qed

section \<open>Finding the reference\<close>

lemma es_referencia_spec: "es_referencia r = nombre_de_referencia (archivo r)"
  by (simp add: es_referencia_def nombre_de_referencia_def py_in_sublist
      REFERENCIA_KEYWORD_def py_lower_def py_lower_char_def)

lemma encontrar_referencia_find: "encontrar_referencia rs = find es_referencia rs"
  by (induction rs) auto

lemma encontrar_referencia_Some:
  assumes "encontrar_referencia rs = Some r"
  shows "r \<in> set rs \<and> es_referencia r"
  using assms by (induction rs) (auto split: if_splits)

lemma analisis_no_vacio: "analisis rs = Inr rep \<Longrightarrow> rs \<noteq> []"
  by (auto simp: analisis_Nil)

section \<open>The example runs\<close>

lemma analisis_registros_ejemplo: "analisis registros_ejemplo = Inr informe_registros"
  by code_simp

lemma main_directorio_ejemplo:
  "main directorio_ejemplo = Completado informe_ejemplo [fila_mpls, fila_srv6]"
  by code_simp

lemma main_directorio_sin_referencia:
  "main directorio_sin_referencia =
     Completado informe_sin_referencia [fila_ospf, fila_srv6_cfg]"
  by code_simp

lemma obtener_directorio_ejemplo:
  "obtener_archivos_config directorio_ejemplo CONFIG_DIR =
     Inr [''./pe1-mpls-srv6.txt'', ''./pe1-mpls.txt'']"
  by code_simp

lemma obtener_directorio_ilegible:
  "obtener_archivos_config directorio_ilegible CONFIG_DIR =
     Inr [''./pe1-mpls-srv6.txt'', ''./pe1-mpls.txt'']"
  by code_simp

lemma registros_ejemplo_no_vacio: "registros_ejemplo \<noteq> []"
  by (simp add: registros_ejemplo_def)

lemma Min_registros_ejemplo: "Min (lineas_codigo ` set registros_ejemplo) = 10"
  by (simp add: registros_ejemplo_def)

text \<open>
  With a file of no code lines the least count is zero and every percentage against it
  is zero; the differences against the reference may be negative.
\<close>

lemma analisis_minimo_cero:
  "(case analisis
           [\<lparr>archivo = ''pe1-mpls.txt'', lineas_codigo = 10,
              diff_vs_min_abs = None, diff_vs_min_pct = None,
              diff_vs_ref_abs = None, diff_vs_ref_pct = None\<rparr>,
            \<lparr>archivo = ''vacio.txt'', lineas_codigo = 0,
              diff_vs_min_abs = None, diff_vs_min_pct = None,
              diff_vs_ref_abs = None, diff_vs_ref_pct = None\<rparr>] of
      Inl e \<Rightarrow> []
    | Inr rep \<Rightarrow>
        map (\<lambda>r. (archivo r, diff_vs_min_abs r, diff_vs_min_pct r,
                   diff_vs_ref_abs r, diff_vs_ref_pct r)) (filas rep)) =
     [(''vacio.txt'', Some 0, Some 0, Some (- 10), Some (- 100)),
      (''pe1-mpls.txt'', Some 10, Some 0, Some 0, Some 0)]"
  by code_simp

text \<open>
  C3. For every non-empty list of records the analysis succeeds; it keeps the files and
  their counts; every row's \<open>diff_vs_min_abs\<close> is its count minus the least count of the
  set, which is not negative, and it is zero exactly for the rows whose count is the
  least count. Some row has it zero.
\<close>

theorem analisis_diff_vs_min_abs:
  assumes "resultados \<noteq> []"
  shows "\<exists>rep. analisis resultados = Inr rep \<and>
           mset (map (\<lambda>r. (archivo r, lineas_codigo r)) (filas rep)) =
             mset (map (\<lambda>r. (archivo r, lineas_codigo r)) resultados) \<and>
           (\<forall>r \<in> set (filas rep).
              diff_vs_min_abs r =
                Some (lineas_codigo r - Min (lineas_codigo ` set resultados)) \<and>
              0 \<le> lineas_codigo r - Min (lineas_codigo ` set resultados) \<and>
              (diff_vs_min_abs r = Some 0 \<longleftrightarrow>
                 lineas_codigo r = Min (lineas_codigo ` set resultados))) \<and>
           (\<exists>r \<in> set (filas rep). diff_vs_min_abs r = Some 0)"
proof -
  let ?mn = "Min (lineas_codigo ` set resultados)"
  let ?ord = "sort_key lineas_codigo resultados"
  let ?rf = "map_option lineas_codigo (encontrar_referencia ?ord)"
  obtain rep where rep: "analisis resultados = Inr rep"
    and filas: "filas rep = map (actualizado ?mn ?rf) ?ord"
    using analisis_Inr [OF assms] by simp
  have "map (\<lambda>r. (archivo r, lineas_codigo r)) (filas rep) =
        map (\<lambda>r. (archivo r, lineas_codigo r)) ?ord"
    by (simp add: filas)
  then have perm: "mset (map (\<lambda>r. (archivo r, lineas_codigo r)) (filas rep)) =
      mset (map (\<lambda>r. (archivo r, lineas_codigo r)) resultados)"
    by simp
  have lower: "?mn \<le> lineas_codigo r" if "r \<in> set resultados" for r
    using that by (intro Min_le) auto
  have rows: "diff_vs_min_abs r = Some (lineas_codigo r - ?mn) \<and>
              0 \<le> lineas_codigo r - ?mn \<and>
              (diff_vs_min_abs r = Some 0 \<longleftrightarrow> lineas_codigo r = ?mn)"
    if "r \<in> set (filas rep)" for r
  proof -
    from that obtain r0 where r0: "r0 \<in> set resultados" and r: "r = actualizado ?mn ?rf r0"
      by (auto simp: filas)
    from lower [OF r0] show ?thesis
      by (auto simp: r)
  qed
  have "?mn \<in> lineas_codigo ` set resultados"
    using assms by (intro Min_in) auto
  then obtain r0 where r0: "r0 \<in> set resultados" and mn: "lineas_codigo r0 = ?mn"
    by auto
  have "actualizado ?mn ?rf r0 \<in> set (filas rep)"
    using r0 by (simp add: filas)
  moreover have "diff_vs_min_abs (actualizado ?mn ?rf r0) = Some 0"
    by (simp add: mn)
  ultimately have ex: "\<exists>r \<in> set (filas rep). diff_vs_min_abs r = Some 0"
    by blast
  from rep perm rows ex show ?thesis
    by blast
qed

theorem analisis_diff_vs_min_abs_witness:
  "registros_ejemplo \<noteq> [] \<and>
   analisis registros_ejemplo = Inr informe_registros \<and>
   Min (lineas_codigo ` set registros_ejemplo) = 10 \<and>
   map lineas_codigo (filas informe_registros) = [10, 10, 14] \<and>
   map diff_vs_min_abs (filas informe_registros) = [Some 0, Some 0, Some 4]"
  using analisis_diff_vs_min_abs [OF registros_ejemplo_no_vacio]
    registros_ejemplo_no_vacio analisis_registros_ejemplo Min_registros_ejemplo
  by (simp add: informe_registros_def fila_mpls_def fila_sr_mpls_def fila_srv6_def)

text \<open>
  C10. Whenever the analysis finds a reference, the reference record is one of the rows,
  its name is a reference name, and its own \<open>diff_vs_ref_abs\<close> and \<open>diff_vs_ref_pct\<close>
  are zero.
\<close>

theorem referencia_diff_cero:
  assumes "analisis resultados = Inr rep" and "referencia rep = Some r"
  shows "r \<in> set (filas rep) \<and> nombre_de_referencia (archivo r) \<and>
         diff_vs_ref_abs r = Some 0 \<and> diff_vs_ref_pct r = Some 0"
proof -
  let ?mn = "Min (lineas_codigo ` set resultados)"
  let ?ord = "sort_key lineas_codigo resultados"
  let ?rf = "map_option lineas_codigo (encontrar_referencia ?ord)"
  have ne: "resultados \<noteq> []"
    using assms(1) by (rule analisis_no_vacio)
  have filas: "filas rep = map (actualizado ?mn ?rf) ?ord"
    and ref: "referencia rep = map_option (actualizado ?mn ?rf) (encontrar_referencia ?ord)"
    using analisis_Inr [OF ne] assms(1) by auto
  from ref assms(2) obtain r0 where r0: "encontrar_referencia ?ord = Some r0"
    and r: "r = actualizado ?mn (Some (lineas_codigo r0)) r0"
    by (cases "encontrar_referencia ?ord") auto
  from encontrar_referencia_Some [OF r0] have mem: "r0 \<in> set ?ord" and es: "es_referencia r0"
    by simp_all
  have "r \<in> set (filas rep)"
    using mem by (simp add: filas r0 r)
  moreover have "nombre_de_referencia (archivo r)"
    using es by (simp add: es_referencia_spec r)
  moreover have "diff_vs_ref_abs r = Some 0" "diff_vs_ref_pct r = Some 0"
    by (simp_all add: r porcentaje_valor_0 py_round_0)
  ultimately show ?thesis
    by simp
qed

theorem referencia_diff_cero_witness:
  "analisis registros_ejemplo = Inr informe_registros \<and>
   referencia informe_registros = Some fila_mpls \<and>
   fila_mpls \<in> set (filas informe_registros) \<and>
   nombre_de_referencia (archivo fila_mpls) \<and>
   diff_vs_ref_abs fila_mpls = Some 0 \<and> diff_vs_ref_pct fila_mpls = Some 0"
proof -
  have r: "referencia informe_registros = Some fila_mpls"
    by (simp add: informe_registros_def)
  from referencia_diff_cero [OF analisis_registros_ejemplo r] analisis_registros_ejemplo r
  show ?thesis
    by simp
qed

section \<open>Step 1 and the whole program\<close>

lemma contar_lineas_config_error: "contar_lineas_config fs ruta = Inl e \<Longrightarrow> e = OSError"
  by (auto simp: contar_lineas_config_def open_read_def
      split: node.splits option.splits sum.splits)

lemma contar_lineas_config_open:
  "(\<exists>n. contar_lineas_config fs ruta = Inr n) \<longleftrightarrow> (\<exists>lineas. open_read fs ruta = Inr lineas)"
  by (auto simp: contar_lineas_config_def split: sum.splits)

lemma conteo_error: "conteo fs rutas acc = Inl e \<Longrightarrow> e = OSError"
  by (induction rutas arbitrary: acc)
    (auto split: sum.splits dest: contar_lineas_config_error)

lemma conteo_Inr:
  assumes "conteo fs rutas acc = Inr rs"
  shows "rs = acc @ map (registro_inicial fs) rutas \<and>
         (\<forall>ruta \<in> set rutas. \<exists>lineas. open_read fs ruta = Inr lineas)"
  using assms
proof (induction rutas arbitrary: acc)
  case Nil
  then show ?case by simp
next
  case (Cons ruta rutas)
  from Cons.prems obtain n where n: "contar_lineas_config fs ruta = Inr n"
    by (cases "contar_lineas_config fs ruta") auto
  then have op: "\<exists>lineas. open_read fs ruta = Inr lineas"
    using contar_lineas_config_open by blast
  from Cons.prems n have
    "conteo fs rutas
       (acc @ [\<lparr>archivo = os_path_basename ruta, lineas_codigo = n,
                 diff_vs_min_abs = None, diff_vs_min_pct = None,
                 diff_vs_ref_abs = None, diff_vs_ref_pct = None\<rparr>]) = Inr rs"
    by simp
  from Cons.IH [OF this] n op show ?case
    by (simp add: registro_inicial_def)
qed

lemma conteo_falla:
  assumes "ruta \<in> set rutas" and "open_read fs ruta = Inl e"
  shows "conteo fs rutas acc = Inl OSError"
proof (cases "conteo fs rutas acc")
  case (Inl e')
  then show ?thesis
    using conteo_error by blast
next
  case (Inr rs)
  from conteo_Inr [OF Inr] assms show ?thesis
    by auto
qed

lemma conteo_ok:
  assumes "\<forall>ruta \<in> set rutas. \<exists>lineas. open_read fs ruta = Inr lineas"
  shows "conteo fs rutas acc = Inr (acc @ map (registro_inicial fs) rutas)"
  using assms
proof (induction rutas arbitrary: acc)
  case Nil
  then show ?case by simp
next
  case (Cons ruta rutas)
  then obtain lineas where "open_read fs ruta = Inr lineas"
    by auto
  then have n: "contar_lineas_config fs ruta = Inr (contar_bucle lineas 0)"
    by (simp add: contar_lineas_config_def)
  from Cons show ?case
    by (simp add: n registro_inicial_def)
qed

lemma main_Completado:
  assumes "main fs = Completado rep csv"
  shows "\<exists>archivos. isdir fs CONFIG_DIR \<and>
           obtener_archivos_config fs CONFIG_DIR = Inr archivos \<and> archivos \<noteq> [] \<and>
           (\<forall>ruta \<in> set archivos. \<exists>lineas. open_read fs ruta = Inr lineas) \<and>
           analisis (map (registro_inicial fs) archivos) = Inr rep \<and>
           csv = filas rep"
proof -
  from assms have d: "isdir fs CONFIG_DIR"
    by (auto simp: main_def split: if_splits)
  from assms d obtain archivos where a: "obtener_archivos_config fs CONFIG_DIR = Inr archivos"
    by (cases "obtener_archivos_config fs CONFIG_DIR") (auto simp: main_def)
  from assms d a have ne: "archivos \<noteq> []"
    by (auto simp: main_def split: if_splits)
  from assms d a ne obtain rs where c: "conteo fs archivos [] = Inr rs"
    by (cases "conteo fs archivos []") (auto simp: main_def)
  from conteo_Inr [OF c] have rs: "rs = map (registro_inicial fs) archivos"
    and op: "\<forall>ruta \<in> set archivos. \<exists>lineas. open_read fs ruta = Inr lineas"
    by simp_all
  from assms d a ne c have "analisis rs = Inr rep \<and> csv = filas rep"
    by (auto simp: main_def guardar_csv_def split: sum.splits if_splits)
  with d a ne op rs show ?thesis
    by auto
qed

lemma main_Excepcion:
  assumes "main fs = Excepcion e"
  shows "e = OSError"
proof -
  from assms have d: "isdir fs CONFIG_DIR"
    by (auto simp: main_def split: if_splits)
  show ?thesis
  proof (cases "obtener_archivos_config fs CONFIG_DIR")
    case (Inl e')
    with assms d show ?thesis
      by (auto simp: main_def obtener_archivos_config_def split: option.splits)
  next
    case (Inr archivos)
    with assms d have ne: "archivos \<noteq> []"
      by (auto simp: main_def split: if_splits)
    show ?thesis
    proof (cases "conteo fs archivos []")
      case (Inl e')
      with assms d Inr ne conteo_error [OF Inl] show ?thesis
        by (auto simp: main_def)
    next
      case c: (Inr rs)
      from conteo_Inr [OF c] ne have "rs \<noteq> []"
        by simp
      from analisis_Inr [OF this] obtain rep where "analisis rs = Inr rep"
        by simp
      with assms d Inr ne c show ?thesis
        by (auto simp: main_def guardar_csv_def split: if_splits)
    qed
  qed
qed

text \<open>
  Runs of steps 2 to 5 in which the percentages are not multiples of a hundredth, and
  in which a divisor is zero.
\<close>

lemma registros_tercios_no_vacio: "registros_tercios \<noteq> []"
  by (simp add: registros_tercios_def)

lemma Min_registros_tercios: "Min (lineas_codigo ` set registros_tercios) = 3"
  by (simp add: registros_tercios_def)

lemma Max_registros_tercios: "Max (lineas_codigo ` set registros_tercios) = 7"
  by (simp add: registros_tercios_def)

lemma analisis_registros_tercios:
  "(case analisis registros_tercios of
      Inl e \<Rightarrow> []
    | Inr rep \<Rightarrow>
        map (\<lambda>r. (lineas_codigo r, diff_vs_min_abs r, diff_vs_min_pct r,
                   diff_vs_ref_abs r, diff_vs_ref_pct r)) (filas rep)) =
     [(3, Some 0, Some 0, Some 0, Some 0),
      (4, Some 1, Some (2345390243441541 / 70368744177664),
          Some 1, Some (2345390243441541 / 70368744177664)),
      (7, Some 4, Some (4691132330603971 / 35184372088832),
          Some 4, Some (4691132330603971 / 35184372088832))]"
  by code_simp

lemma redondeo_un_tercio:
  "int_truediv 1 3 = Inr (fl (1 / 3)) \<and>
   float_mul (fl (1 / 3)) (float_of_int 100) = 2345624805922133 / 70368744177664 \<and>
   py_round (2345624805922133 / 70368744177664) 2 = 2345390243441541 / 70368744177664 \<and>
   fl (3333 / 100) = 2345390243441541 / 70368744177664 \<and>
   fl (13333 / 100) = 4691132330603971 / 35184372088832"
  by code_simp

lemma analisis_registros_base_cero:
  "(case analisis registros_base_cero of
      Inl e \<Rightarrow> []
    | Inr rep \<Rightarrow>
        map (\<lambda>r. (lineas_codigo r, diff_vs_min_abs r, diff_vs_min_pct r,
                   diff_vs_ref_abs r, diff_vs_ref_pct r)) (filas rep)) =
     [(0, Some 0, Some 0, Some 0, Some 0), (5, Some 5, Some 0, Some 5, Some 0)]"
  by code_simp

lemma analisis_registros_todo_cero:
  "(case analisis registros_todo_cero of
      Inl e \<Rightarrow> None
    | Inr rep \<Rightarrow> Some (diff_extremos rep, diff_extremos_pct rep)) = Some (0, 0)"
  by code_simp

lemma int_truediv_cero: "int_truediv 5 0 = Inl ZeroDivisionError \<and>
   int_truediv 0 0 = Inl ZeroDivisionError"
  by (simp add: int_truediv_def)

text \<open>
  C6. Every percentage is guarded. With \<open>mn\<close> the least and \<open>mx\<close> the greatest count of
  a non-empty set: when \<open>mn > 0\<close> the division of the row's \<open>diff_vs_min_abs\<close>, which is
  its count minus \<open>mn\<close>, by \<open>mn\<close> is defined, and \<open>diff_vs_min_pct\<close> is the double
  quotient times 100, rounded to 2 decimal places; otherwise it is zero; the row with
  the least count has it zero; with a reference, \<open>diff_vs_ref_pct\<close> is the same with
  \<open>diff_vs_ref_abs\<close> and the reference's count as divisor; the percentage between the
  extremes divides by \<open>mx\<close>, is not rounded, and is zero when \<open>mx\<close> is not positive.
  Neither the analysis nor the program ever raises \<open>ZeroDivisionError\<close>.
\<close>

theorem porcentajes_protegidos:
  "(resultados \<noteq> [] \<longrightarrow>
      (\<exists>rep. analisis resultados = Inr rep \<and>
         (let mn = Min (lineas_codigo ` set resultados);
              mx = Max (lineas_codigo ` set resultados)
          in (\<forall>r \<in> set (filas rep).
                (if mn > 0
                 then \<exists>d q y. d = lineas_codigo r - mn \<and> diff_vs_min_abs r = Some d \<and>
                              int_truediv d mn = Inr q \<and> q = fl (of_int d / of_int mn) \<and>
                              diff_vs_min_pct r = Some y \<and>
                              redondeo_2_decimales (fl (q * 100)) y
                 else diff_vs_min_pct r = Some 0) \<and>
                (lineas_codigo r = mn \<longrightarrow> diff_vs_min_pct r = Some 0) \<and>
                (\<forall>ref. referencia rep = Some ref \<longrightarrow>
                   (if lineas_codigo ref > 0
                    then \<exists>d q y. d = lineas_codigo r - lineas_codigo ref \<and>
                                 diff_vs_ref_abs r = Some d \<and>
                                 int_truediv d (lineas_codigo ref) = Inr q \<and>
                                 q = fl (of_int d / of_int (lineas_codigo ref)) \<and>
                                 diff_vs_ref_pct r = Some y \<and>
                                 redondeo_2_decimales (fl (q * 100)) y
                    else diff_vs_ref_pct r = Some 0))) \<and>
             (if mx > 0
              then \<exists>q. int_truediv (mx - mn) mx = Inr q \<and>
                       q = fl (of_int (mx - mn) / of_int mx) \<and>
                       diff_extremos_pct rep = fl (q * 100)
              else diff_extremos_pct rep = 0)))) \<and>
   analisis resultados \<noteq> Inl ZeroDivisionError \<and>
   main fs \<noteq> Excepcion ZeroDivisionError"
proof -
  let ?mn = "Min (lineas_codigo ` set resultados)"
  let ?mx = "Max (lineas_codigo ` set resultados)"
  let ?ord = "sort_key lineas_codigo resultados"
  let ?rf = "map_option lineas_codigo (encontrar_referencia ?ord)"
  have nz: "analisis resultados \<noteq> Inl ZeroDivisionError"
  proof (cases "resultados = []")
    case True
    then show ?thesis by (simp add: analisis_Nil)
  next
    case False
    from analisis_Inr [OF this] show ?thesis by simp
  qed
  have nm: "main fs \<noteq> Excepcion ZeroDivisionError"
    using main_Excepcion by fastforce
  have val: "if base > 0
             then \<exists>q y. int_truediv d base = Inr q \<and>
                        q = fl (of_int d / of_int base) \<and>
                        py_round (porcentaje_valor d base) 2 = y \<and>
                        redondeo_2_decimales (fl (q * 100)) y
             else py_round (porcentaje_valor d base) 2 = 0" for d base :: int
    using py_round_redondeo [of "fl (fl (of_int d / of_int base) * 100)"]
    by (simp add: porcentaje_valor_def int_truediv_def py_round_0 float_mul_def
        float_of_int_100)
  have val': "if base > 0
             then \<exists>q. int_truediv d base = Inr q \<and>
                      q = fl (of_int d / of_int base) \<and>
                      porcentaje_valor d base = fl (q * 100)
             else porcentaje_valor d base = 0" for d base :: int
    by (simp add: porcentaje_valor_def int_truediv_def float_mul_def float_of_int_100)
  have main_part: "\<exists>rep. analisis resultados = Inr rep \<and>
         (let mn = ?mn; mx = ?mx
          in (\<forall>r \<in> set (filas rep).
                (if mn > 0
                 then \<exists>d q y. d = lineas_codigo r - mn \<and> diff_vs_min_abs r = Some d \<and>
                              int_truediv d mn = Inr q \<and> q = fl (of_int d / of_int mn) \<and>
                              diff_vs_min_pct r = Some y \<and>
                              redondeo_2_decimales (fl (q * 100)) y
                 else diff_vs_min_pct r = Some 0) \<and>
                (lineas_codigo r = mn \<longrightarrow> diff_vs_min_pct r = Some 0) \<and>
                (\<forall>ref. referencia rep = Some ref \<longrightarrow>
                   (if lineas_codigo ref > 0
                    then \<exists>d q y. d = lineas_codigo r - lineas_codigo ref \<and>
                                 diff_vs_ref_abs r = Some d \<and>
                                 int_truediv d (lineas_codigo ref) = Inr q \<and>
                                 q = fl (of_int d / of_int (lineas_codigo ref)) \<and>
                                 diff_vs_ref_pct r = Some y \<and>
                                 redondeo_2_decimales (fl (q * 100)) y
                    else diff_vs_ref_pct r = Some 0))) \<and>
             (if mx > 0
              then \<exists>q. int_truediv (mx - mn) mx = Inr q \<and>
                       q = fl (of_int (mx - mn) / of_int mx) \<and>
                       diff_extremos_pct rep = fl (q * 100)
              else diff_extremos_pct rep = 0))"
    if ne: "resultados \<noteq> []"
  proof -
    obtain rep where rep: "analisis resultados = Inr rep"
      and filas: "filas rep = map (actualizado ?mn ?rf) ?ord"
      and ext: "diff_extremos_pct rep = porcentaje_valor (?mx - ?mn) ?mx"
      and ref: "referencia rep = map_option (actualizado ?mn ?rf) (encontrar_referencia ?ord)"
      using analisis_Inr [OF ne] by simp
    have rows: "(if ?mn > 0
                 then \<exists>d q y. d = lineas_codigo r - ?mn \<and> diff_vs_min_abs r = Some d \<and>
                              int_truediv d ?mn = Inr q \<and> q = fl (of_int d / of_int ?mn) \<and>
                              diff_vs_min_pct r = Some y \<and>
                              redondeo_2_decimales (fl (q * 100)) y
                 else diff_vs_min_pct r = Some 0) \<and>
                (lineas_codigo r = ?mn \<longrightarrow> diff_vs_min_pct r = Some 0) \<and>
                (\<forall>ref. referencia rep = Some ref \<longrightarrow>
                   (if lineas_codigo ref > 0
                    then \<exists>d q y. d = lineas_codigo r - lineas_codigo ref \<and>
                                 diff_vs_ref_abs r = Some d \<and>
                                 int_truediv d (lineas_codigo ref) = Inr q \<and>
                                 q = fl (of_int d / of_int (lineas_codigo ref)) \<and>
                                 diff_vs_ref_pct r = Some y \<and>
                                 redondeo_2_decimales (fl (q * 100)) y
                    else diff_vs_ref_pct r = Some 0))"
      if "r \<in> set (filas rep)" for r
    proof -
      from that obtain r0 where r: "r = actualizado ?mn ?rf r0"
        by (auto simp: filas)
      have a: "if ?mn > 0
               then \<exists>d q y. d = lineas_codigo r - ?mn \<and> diff_vs_min_abs r = Some d \<and>
                            int_truediv d ?mn = Inr q \<and> q = fl (of_int d / of_int ?mn) \<and>
                            diff_vs_min_pct r = Some y \<and>
                            redondeo_2_decimales (fl (q * 100)) y
               else diff_vs_min_pct r = Some 0"
        using val [of ?mn "lineas_codigo r0 - ?mn"]
        by (auto simp: r simp del: of_int_diff split: if_splits)
      have b: "lineas_codigo r = ?mn \<longrightarrow> diff_vs_min_pct r = Some 0"
        by (simp add: r porcentaje_valor_0 py_round_0)
      have c: "if lineas_codigo ref > 0
               then \<exists>d q y. d = lineas_codigo r - lineas_codigo ref \<and>
                            diff_vs_ref_abs r = Some d \<and>
                            int_truediv d (lineas_codigo ref) = Inr q \<and>
                            q = fl (of_int d / of_int (lineas_codigo ref)) \<and>
                            diff_vs_ref_pct r = Some y \<and>
                            redondeo_2_decimales (fl (q * 100)) y
               else diff_vs_ref_pct r = Some 0"
        if "referencia rep = Some ref" for ref
      proof -
        from that ref obtain ref0 where ref0: "encontrar_referencia ?ord = Some ref0"
          and "ref = actualizado ?mn ?rf ref0"
          by (cases "encontrar_referencia ?ord") auto
        then have l: "lineas_codigo ref = lineas_codigo ref0"
          by simp
        show ?thesis
          using val [of "lineas_codigo ref0" "lineas_codigo r0 - lineas_codigo ref0"]
          by (auto simp: r ref0 l simp del: of_int_diff split: if_splits)
      qed
      from a b c show ?thesis
        by blast
    qed
    have e: "if ?mx > 0
             then \<exists>q. int_truediv (?mx - ?mn) ?mx = Inr q \<and>
                      q = fl (of_int (?mx - ?mn) / of_int ?mx) \<and>
                      diff_extremos_pct rep = fl (q * 100)
             else diff_extremos_pct rep = 0"
      using val' [of ?mx "?mx - ?mn"]
      by (auto simp: ext simp del: of_int_diff split: if_splits)
    from rep rows e show ?thesis
      unfolding Let_def by blast
  qed
  from main_part nz nm show ?thesis
    by blast
qed

theorem porcentajes_protegidos_witness:
  "registros_tercios \<noteq> [] \<and>
   (\<exists>rep. analisis registros_tercios = Inr rep \<and>
      map (\<lambda>r. (lineas_codigo r, diff_vs_min_abs r, diff_vs_min_pct r,
                 diff_vs_ref_abs r, diff_vs_ref_pct r)) (filas rep) =
        [(3, Some 0, Some 0, Some 0, Some 0),
         (4, Some 1, Some (2345390243441541 / 70368744177664),
             Some 1, Some (2345390243441541 / 70368744177664)),
         (7, Some 4, Some (4691132330603971 / 35184372088832),
             Some 4, Some (4691132330603971 / 35184372088832))] \<and>
      (\<forall>r \<in> set (filas rep).
         \<exists>y. diff_vs_min_pct r = Some y \<and>
             redondeo_2_decimales (fl (fl (of_int (lineas_codigo r - 3) / 3) * 100)) y) \<and>
      diff_extremos_pct rep = fl (fl (4 / 7) * 100)) \<and>
   int_truediv 1 3 = Inr (fl (1 / 3)) \<and>
   float_mul (fl (1 / 3)) (float_of_int 100) = 2345624805922133 / 70368744177664 \<and>
   py_round (2345624805922133 / 70368744177664) 2 = 2345390243441541 / 70368744177664 \<and>
   fl (3333 / 100) = 2345390243441541 / 70368744177664 \<and>
   fl (13333 / 100) = 4691132330603971 / 35184372088832 \<and>
   (case analisis registros_base_cero of
      Inl e \<Rightarrow> []
    | Inr rep \<Rightarrow>
        map (\<lambda>r. (lineas_codigo r, diff_vs_min_abs r, diff_vs_min_pct r,
                   diff_vs_ref_abs r, diff_vs_ref_pct r)) (filas rep)) =
     [(0, Some 0, Some 0, Some 0, Some 0), (5, Some 5, Some 0, Some 5, Some 0)] \<and>
   (case analisis registros_todo_cero of
      Inl e \<Rightarrow> None
    | Inr rep \<Rightarrow> Some (diff_extremos rep, diff_extremos_pct rep)) = Some (0, 0) \<and>
   int_truediv 5 0 = Inl ZeroDivisionError \<and>
   int_truediv 0 0 = Inl ZeroDivisionError \<and>
   analisis registros_base_cero \<noteq> Inl ZeroDivisionError \<and>
   analisis registros_todo_cero \<noteq> Inl ZeroDivisionError \<and>
   main directorio_ejemplo \<noteq> Excepcion ZeroDivisionError"
proof -
  from porcentajes_protegidos [of registros_tercios directorio_ejemplo]
    registros_tercios_no_vacio
  obtain rep where a: "analisis registros_tercios = Inr rep"
    and rows: "\<forall>r \<in> set (filas rep).
         \<exists>y. diff_vs_min_pct r = Some y \<and>
             redondeo_2_decimales (fl (fl (of_int (lineas_codigo r - 3) / 3) * 100)) y"
    and ext: "diff_extremos_pct rep = fl (fl (4 / 7) * 100)"
    and nm: "main directorio_ejemplo \<noteq> Excepcion ZeroDivisionError"
    by (auto simp: Min_registros_tercios Max_registros_tercios Let_def)
  from analisis_registros_tercios a
  have f: "map (\<lambda>r. (lineas_codigo r, diff_vs_min_abs r, diff_vs_min_pct r,
                 diff_vs_ref_abs r, diff_vs_ref_pct r)) (filas rep) =
        [(3, Some 0, Some 0, Some 0, Some 0),
         (4, Some 1, Some (2345390243441541 / 70368744177664),
             Some 1, Some (2345390243441541 / 70368744177664)),
         (7, Some 4, Some (4691132330603971 / 35184372088832),
             Some 4, Some (4691132330603971 / 35184372088832))]"
    by simp
  from porcentajes_protegidos [of registros_base_cero directorio_ejemplo]
  have z: "analisis registros_base_cero \<noteq> Inl ZeroDivisionError"
    by blast
  from porcentajes_protegidos [of registros_todo_cero directorio_ejemplo]
  have z': "analisis registros_todo_cero \<noteq> Inl ZeroDivisionError"
    by blast
  have t: "\<exists>rep. analisis registros_tercios = Inr rep \<and>
      map (\<lambda>r. (lineas_codigo r, diff_vs_min_abs r, diff_vs_min_pct r,
                 diff_vs_ref_abs r, diff_vs_ref_pct r)) (filas rep) =
        [(3, Some 0, Some 0, Some 0, Some 0),
         (4, Some 1, Some (2345390243441541 / 70368744177664),
             Some 1, Some (2345390243441541 / 70368744177664)),
         (7, Some 4, Some (4691132330603971 / 35184372088832),
             Some 4, Some (4691132330603971 / 35184372088832))] \<and>
      (\<forall>r \<in> set (filas rep).
         \<exists>y. diff_vs_min_pct r = Some y \<and>
             redondeo_2_decimales (fl (fl (of_int (lineas_codigo r - 3) / 3) * 100)) y) \<and>
      diff_extremos_pct rep = fl (fl (4 / 7) * 100)"
    by (rule exI [of _ rep]) (intro conjI a f rows ext)
  note q = redondeo_un_tercio
  note i = int_truediv_cero
  show ?thesis
    by (intro conjI registros_tercios_no_vacio t
        q [THEN conjunct1] q [THEN conjunct2, THEN conjunct1]
        q [THEN conjunct2, THEN conjunct2, THEN conjunct1]
        q [THEN conjunct2, THEN conjunct2, THEN conjunct2, THEN conjunct1]
        q [THEN conjunct2, THEN conjunct2, THEN conjunct2, THEN conjunct2]
        analisis_registros_base_cero analisis_registros_todo_cero
        i [THEN conjunct1] i [THEN conjunct2] z z' nm)
qed

text \<open>
  C7. In a completed run the rows of the report are as one in their reference fields: if
  no reference was found, \<open>diff_vs_ref_abs\<close> and \<open>diff_vs_ref_pct\<close> are unset in every row
  (not zero); if one was found they are set in every row. No reference is found exactly
  when no row has a reference name.
\<close>

theorem sin_referencia_campos_vacios:
  assumes "main fs = Completado rep csv"
  shows "csv = filas rep \<and>
         (referencia rep = None \<longrightarrow>
            (\<forall>r \<in> set csv. diff_vs_ref_abs r = None \<and> diff_vs_ref_pct r = None)) \<and>
         (referencia rep \<noteq> None \<longrightarrow>
            (\<forall>r \<in> set csv. diff_vs_ref_abs r \<noteq> None \<and> diff_vs_ref_pct r \<noteq> None)) \<and>
         (referencia rep = None \<longleftrightarrow> (\<forall>r \<in> set csv. \<not> nombre_de_referencia (archivo r)))"
proof -
  from main_Completado [OF assms] obtain archivos
    where ne: "archivos \<noteq> []"
      and an: "analisis (map (registro_inicial fs) archivos) = Inr rep"
      and csv: "csv = filas rep"
    by blast
  let ?rs = "map (registro_inicial fs) archivos"
  let ?mn = "Min (lineas_codigo ` set ?rs)"
  let ?ord = "sort_key lineas_codigo ?rs"
  let ?rf = "map_option lineas_codigo (encontrar_referencia ?ord)"
  from ne have ne': "?rs \<noteq> []"
    by simp
  have filas: "filas rep = map (actualizado ?mn ?rf) ?ord"
    and ref: "referencia rep = map_option (actualizado ?mn ?rf) (encontrar_referencia ?ord)"
    using analisis_Inr [OF ne'] an by auto
  have ini: "diff_vs_ref_abs r0 = None \<and> diff_vs_ref_pct r0 = None" if "r0 \<in> set ?ord" for r0
    using that by (auto simp: registro_inicial_def)
  have none: "\<forall>r \<in> set csv. diff_vs_ref_abs r = None \<and> diff_vs_ref_pct r = None"
    if "referencia rep = None"
  proof -
    from that ref have "?rf = None"
      by simp
    with ini show ?thesis
      unfolding csv filas by (auto simp del: set_sort)
  qed
  have some: "\<forall>r \<in> set csv. diff_vs_ref_abs r \<noteq> None \<and> diff_vs_ref_pct r \<noteq> None"
    if "referencia rep \<noteq> None"
  proof -
    from that ref obtain rl where "?rf = Some rl"
      by (cases "encontrar_referencia ?ord") auto
    then show ?thesis
      unfolding csv filas by (auto simp del: set_sort)
  qed
  have "referencia rep = None \<longleftrightarrow> find es_referencia ?ord = None"
    by (simp add: ref encontrar_referencia_find)
  also have "\<dots> \<longleftrightarrow> (\<forall>r0 \<in> set ?ord. \<not> nombre_de_referencia (archivo r0))"
    by (auto simp add: find_None_iff es_referencia_spec simp del: set_sort)
  also have "\<dots> \<longleftrightarrow> (\<forall>r \<in> set csv. \<not> nombre_de_referencia (archivo r))"
    unfolding csv filas by (simp del: set_sort)
  finally have iff: "referencia rep = None \<longleftrightarrow>
      (\<forall>r \<in> set csv. \<not> nombre_de_referencia (archivo r))" .
  from csv none some iff show ?thesis
    by blast
qed

theorem sin_referencia_campos_vacios_witness:
  "main directorio_sin_referencia =
     Completado informe_sin_referencia [fila_ospf, fila_srv6_cfg] \<and>
   referencia informe_sin_referencia = None \<and>
   map diff_vs_ref_abs [fila_ospf, fila_srv6_cfg] = [None, None] \<and>
   map diff_vs_ref_pct [fila_ospf, fila_srv6_cfg] = [None, None]"
proof -
  have r: "referencia informe_sin_referencia = None"
    by (simp add: informe_sin_referencia_def)
  from sin_referencia_campos_vacios [OF main_directorio_sin_referencia] r
  have "\<forall>r \<in> set [fila_ospf, fila_srv6_cfg].
          diff_vs_ref_abs r = None \<and> diff_vs_ref_pct r = None"
    by blast
  with main_directorio_sin_referencia r show ?thesis
    by simp
qed

text \<open>
  C9. The rows written to the CSV file are the rows of the report, in ascending order of
  their count; they are the enumerated files, and files with the same count keep the
  order of the enumeration.
\<close>

theorem csv_orden_ascendente:
  assumes "main fs = Completado rep csv"
  shows "csv = filas rep \<and> sorted (map lineas_codigo csv) \<and>
         (\<exists>archivos. obtener_archivos_config fs CONFIG_DIR = Inr archivos \<and>
            mset (map archivo csv) = mset (map os_path_basename archivos) \<and>
            (\<forall>k. map archivo (filter (\<lambda>r. lineas_codigo r = k) csv) =
                  map os_path_basename
                    (filter (\<lambda>ruta. lineas_codigo (registro_inicial fs ruta) = k) archivos)))"
proof -
  from main_Completado [OF assms] obtain archivos
    where ob: "obtener_archivos_config fs CONFIG_DIR = Inr archivos"
      and ne: "archivos \<noteq> []"
      and an: "analisis (map (registro_inicial fs) archivos) = Inr rep"
      and csv: "csv = filas rep"
    by blast
  let ?rs = "map (registro_inicial fs) archivos"
  let ?mn = "Min (lineas_codigo ` set ?rs)"
  let ?ord = "sort_key lineas_codigo ?rs"
  let ?rf = "map_option lineas_codigo (encontrar_referencia ?ord)"
  from ne have ne': "?rs \<noteq> []"
    by simp
  have filas: "filas rep = map (actualizado ?mn ?rf) ?ord"
    using analisis_Inr [OF ne'] an by auto
  have lin: "map lineas_codigo csv = map lineas_codigo ?ord"
    by (simp add: csv filas)
  have srt: "sorted (map lineas_codigo csv)"
    unfolding lin by (rule sorted_sort_key)
  have "map archivo csv = map archivo ?ord"
    by (simp add: csv filas)
  then have "mset (map archivo csv) = mset (map archivo ?rs)"
    by (simp add: multiset.map_comp)
  also have "map archivo ?rs = map os_path_basename archivos"
    by (simp add: registro_inicial_def)
  finally have ms: "mset (map archivo csv) = mset (map os_path_basename archivos)" .
  have st: "map archivo (filter (\<lambda>r. lineas_codigo r = k) csv) =
            map os_path_basename
              (filter (\<lambda>ruta. lineas_codigo (registro_inicial fs ruta) = k) archivos)" for k
  proof -
    have "filter (\<lambda>r. lineas_codigo r = k) csv =
          map (actualizado ?mn ?rf) (filter (\<lambda>r. lineas_codigo r = k) ?ord)"
      by (simp add: csv filas filter_map comp_def)
    also have "filter (\<lambda>r. lineas_codigo r = k) ?ord = filter (\<lambda>r. lineas_codigo r = k) ?rs"
      by (rule sort_key_stable)
    also have "\<dots> = map (registro_inicial fs)
        (filter (\<lambda>ruta. lineas_codigo (registro_inicial fs ruta) = k) archivos)"
      by (simp add: filter_map comp_def)
    finally show ?thesis
      by (simp add: comp_def registro_inicial_def)
  qed
  from csv srt ob ms st show ?thesis
    by blast
qed

theorem csv_orden_ascendente_witness:
  "main directorio_ejemplo = Completado informe_ejemplo [fila_mpls, fila_srv6] \<and>
   obtener_archivos_config directorio_ejemplo CONFIG_DIR =
     Inr [''./pe1-mpls-srv6.txt'', ''./pe1-mpls.txt''] \<and>
   map archivo [fila_mpls, fila_srv6] = [''pe1-mpls.txt'', ''pe1-mpls-srv6.txt''] \<and>
   map lineas_codigo [fila_mpls, fila_srv6] = [10, 14] \<and>
   sorted (map lineas_codigo [fila_mpls, fila_srv6])"
proof -
  from csv_orden_ascendente [OF main_directorio_ejemplo]
  have s: "sorted (map lineas_codigo [fila_mpls, fila_srv6])"
    by blast
  have a: "map archivo [fila_mpls, fila_srv6] = [''pe1-mpls.txt'', ''pe1-mpls-srv6.txt'']"
    by (simp add: fila_mpls_def fila_srv6_def)
  have l: "map lineas_codigo [fila_mpls, fila_srv6] = [10, 14]"
    by (simp add: fila_mpls_def fila_srv6_def)
  from main_directorio_ejemplo obtener_directorio_ejemplo a l s show ?thesis
    by blast
qed

text \<open>
  C8. When the directory exists and no file matches, the run ends with the notice of no
  files and no report. Steps 2 to 5 on an empty list would raise \<open>IndexError\<close>; the
  program never does, and a report never has zero rows.
\<close>

theorem sin_archivos_aviso:
  "(isdir fs CONFIG_DIR \<and> obtener_archivos_config fs CONFIG_DIR = Inr [] \<longrightarrow>
      main fs = AvisoSinArchivos) \<and>
   analisis [] = Inl IndexError \<and>
   main fs \<noteq> Excepcion IndexError \<and>
   (\<forall>rep csv. main fs = Completado rep csv \<longrightarrow> csv \<noteq> [])"
proof -
  have a: "isdir fs CONFIG_DIR \<and> obtener_archivos_config fs CONFIG_DIR = Inr [] \<longrightarrow>
      main fs = AvisoSinArchivos"
    by (simp add: main_def)
  have b: "main fs \<noteq> Excepcion IndexError"
    using main_Excepcion by fastforce
  have c: "csv \<noteq> []" if "main fs = Completado rep csv" for rep csv
  proof -
    from main_Completado [OF that] obtain archivos
      where ne: "archivos \<noteq> []"
        and an: "analisis (map (registro_inicial fs) archivos) = Inr rep"
        and csv: "csv = filas rep"
      by blast
    from ne have "map (registro_inicial fs) archivos \<noteq> []"
      by simp
    from analisis_Inr [OF this] an have "length (filas rep) = length archivos"
      by auto
    with ne csv show ?thesis
      by auto
  qed
  from a b c analisis_Nil show ?thesis
    by blast
qed

theorem sin_archivos_aviso_witness:
  "isdir directorio_sin_candidatos CONFIG_DIR \<and>
   obtener_archivos_config directorio_sin_candidatos CONFIG_DIR = Inr [] \<and>
   main directorio_sin_candidatos = AvisoSinArchivos"
proof -
  have d: "isdir directorio_sin_candidatos CONFIG_DIR"
    by code_simp
  have o: "obtener_archivos_config directorio_sin_candidatos CONFIG_DIR = Inr []"
    by code_simp
  from sin_archivos_aviso [of directorio_sin_candidatos] d o show ?thesis
    by simp
qed

text \<open>
  C2, as the program behaves. If the directory exists and one of the candidate files
  cannot be opened, the run ends with the uncaught \<open>OSError\<close>: no report is produced and
  no file is left out of one.
\<close>

theorem archivo_ilegible_aborta:
  assumes "isdir fs CONFIG_DIR"
    and "obtener_archivos_config fs CONFIG_DIR = Inr archivos"
    and "ruta \<in> set archivos"
    and "open_read fs ruta = Inl e"
  shows "main fs = Excepcion OSError"
proof -
  from assms(3) have ne: "archivos \<noteq> []"
    by auto
  from conteo_falla [OF assms(3,4)] have "conteo fs archivos [] = Inl OSError" .
  with assms(1,2) ne show ?thesis
    by (simp add: main_def)
qed

theorem archivo_ilegible_aborta_witness:
  "isdir directorio_ilegible CONFIG_DIR \<and>
   obtener_archivos_config directorio_ilegible CONFIG_DIR =
     Inr [''./pe1-mpls-srv6.txt'', ''./pe1-mpls.txt''] \<and>
   ''./pe1-mpls.txt'' \<in> set [''./pe1-mpls-srv6.txt'', ''./pe1-mpls.txt''] \<and>
   open_read directorio_ilegible ''./pe1-mpls.txt'' = Inl OSError \<and>
   main directorio_ilegible = Excepcion OSError"
proof -
  have d: "isdir directorio_ilegible CONFIG_DIR"
    by code_simp
  have m: "''./pe1-mpls.txt'' \<in> set [''./pe1-mpls-srv6.txt'', ''./pe1-mpls.txt'']"
    by simp
  have o: "open_read directorio_ilegible ''./pe1-mpls.txt'' = Inl OSError"
    by code_simp
  from archivo_ilegible_aborta [OF d obtener_directorio_ilegible m o]
    d obtener_directorio_ilegible m o
  show ?thesis
    by simp
qed

text \<open>
  C2, as the specification states it, fails: in this directory \<open>pe1-mpls.txt\<close> does not
  open and \<open>pe1-mpls-srv6.txt\<close> does, with its 14 code lines; the run ends with the
  exception, not with a report on the file that can be read.
\<close>

theorem lectura_fallida_sin_informe:
  "open_read directorio_ilegible ''./pe1-mpls.txt'' = Inl OSError \<and>
   contar_lineas_config directorio_ilegible ''./pe1-mpls-srv6.txt'' = Inr 14 \<and>
   main directorio_ilegible = Excepcion OSError \<and>
   main directorio_ilegible \<noteq>
     Completado
       \<lparr>filas = [\<lparr>archivo = ''pe1-mpls-srv6.txt'', lineas_codigo = 14,
                   diff_vs_min_abs = Some 0, diff_vs_min_pct = Some 0,
                   diff_vs_ref_abs = None, diff_vs_ref_pct = None\<rparr>],
        mas_simple = \<lparr>archivo = ''pe1-mpls-srv6.txt'', lineas_codigo = 14,
                   diff_vs_min_abs = Some 0, diff_vs_min_pct = Some 0,
                   diff_vs_ref_abs = None, diff_vs_ref_pct = None\<rparr>,
        mas_complejo = \<lparr>archivo = ''pe1-mpls-srv6.txt'', lineas_codigo = 14,
                   diff_vs_min_abs = Some 0, diff_vs_min_pct = Some 0,
                   diff_vs_ref_abs = None, diff_vs_ref_pct = None\<rparr>,
        diff_extremos = 0, diff_extremos_pct = 0, referencia = None\<rparr>
       [\<lparr>archivo = ''pe1-mpls-srv6.txt'', lineas_codigo = 14,
          diff_vs_min_abs = Some 0, diff_vs_min_pct = Some 0,
          diff_vs_ref_abs = None, diff_vs_ref_pct = None\<rparr>]"
  by code_simp

section \<open>The enumeration does not depend on the order of the listing\<close>

lemma obtener_bucle_map_filter:
  "obtener_bucle fs d es =
     map (os_path_join d)
       (filter (\<lambda>e. isfile fs (os_path_join d e) \<and> snd (os_path_splitext e) \<in> set EXTENSIONS) es)"
  by (induction es) (simp_all add: Let_def)

lemma obtener_bucle_mset:
  assumes "mset es = mset es'"
  shows "mset (obtener_bucle fs d es) = mset (obtener_bucle fs d es')"
proof -
  have "mset (obtener_bucle fs d xs) =
        image_mset (os_path_join d)
          (filter_mset (\<lambda>e. isfile fs (os_path_join d e) \<and>
             snd (os_path_splitext e) \<in> set EXTENSIONS) (mset xs))" for xs
    by (simp add: obtener_bucle_map_filter)
  with assms show ?thesis
    by simp
qed

lemma sort_mset_eq:
  fixes xs ys :: "string list"
  assumes "mset xs = mset ys"
  shows "sort xs = sort ys"
  by (rule properties_for_sort) (simp_all add: assms)

lemma isfile_listdir [simp]: "isfile (fs\<lparr>listdir := l\<rparr>) = isfile fs"
  by (rule ext) (simp add: isfile_def)

lemma obtener_bucle_listdir [simp]:
  "obtener_bucle (fs\<lparr>listdir := l\<rparr>) d es = obtener_bucle fs d es"
  by (simp add: obtener_bucle_map_filter)

lemma contar_lineas_config_listdir [simp]:
  "contar_lineas_config (fs\<lparr>listdir := l\<rparr>) = contar_lineas_config fs"
  by (rule ext) (simp add: contar_lineas_config_def open_read_def)

lemma conteo_listdir [simp]: "conteo (fs\<lparr>listdir := l\<rparr>) rutas acc = conteo fs rutas acc"
  by (induction rutas arbitrary: acc) (simp_all split: sum.splits)

lemma guardar_csv_listdir [simp]: "guardar_csv (fs\<lparr>listdir := l\<rparr>) = guardar_csv fs"
  by (intro ext) (simp add: guardar_csv_def)

text \<open>
  The run does not depend on the order in which the directory lists its entries: two
  listings with the same entries give the same outcome, because the paths are sorted
  before they are counted. So the program itself presents the records to steps 2 to 5 in
  one order only, that of their paths.
\<close>

lemma main_independiente_del_listado:
  assumes "mset entradas = mset entradas'"
  shows "main (fs\<lparr>listdir := (listdir fs)(CONFIG_DIR := Some entradas)\<rparr>) =
           main (fs\<lparr>listdir := (listdir fs)(CONFIG_DIR := Some entradas')\<rparr>) \<and>
         referencia_elegida (main (fs\<lparr>listdir := (listdir fs)(CONFIG_DIR := Some entradas)\<rparr>)) =
           referencia_elegida
             (main (fs\<lparr>listdir := (listdir fs)(CONFIG_DIR := Some entradas')\<rparr>))"
proof -
  have "sort (obtener_bucle fs CONFIG_DIR entradas) = sort (obtener_bucle fs CONFIG_DIR entradas')"
    by (rule sort_mset_eq) (rule obtener_bucle_mset [OF assms])
  then have "main (fs\<lparr>listdir := (listdir fs)(CONFIG_DIR := Some entradas)\<rparr>) =
      main (fs\<lparr>listdir := (listdir fs)(CONFIG_DIR := Some entradas')\<rparr>)"
    by (simp add: main_def obtener_archivos_config_def cong: sum.case_cong)
  then show ?thesis
    by simp
qed

lemma main_independiente_del_listado_ejemplo:
  "mset [''pe1-mpls.txt'', ''viejas'', ''pe1-mpls-srv6.txt'', ''notas.md''] =
     mset [''notas.md'', ''pe1-mpls-srv6.txt'', ''viejas'', ''pe1-mpls.txt''] \<and>
   main (directorio_ejemplo\<lparr>listdir := (listdir directorio_ejemplo)
           (CONFIG_DIR := Some [''pe1-mpls.txt'', ''viejas'', ''pe1-mpls-srv6.txt'', ''notas.md''])\<rparr>) =
     main (directorio_ejemplo\<lparr>listdir := (listdir directorio_ejemplo)
           (CONFIG_DIR := Some [''notas.md'', ''pe1-mpls-srv6.txt'', ''viejas'', ''pe1-mpls.txt''])\<rparr>) \<and>
   referencia_elegida
     (main (directorio_ejemplo\<lparr>listdir := (listdir directorio_ejemplo)
        (CONFIG_DIR := Some [''notas.md'', ''pe1-mpls-srv6.txt'', ''viejas'', ''pe1-mpls.txt''])\<rparr>)) =
     Some fila_mpls"
proof -
  have h: "mset [''pe1-mpls.txt'', ''viejas'', ''pe1-mpls-srv6.txt'', ''notas.md''] =
     mset [''notas.md'', ''pe1-mpls-srv6.txt'', ''viejas'', ''pe1-mpls.txt'']"
    by simp
  have e: "referencia_elegida
     (main (directorio_ejemplo\<lparr>listdir := (listdir directorio_ejemplo)
        (CONFIG_DIR := Some [''notas.md'', ''pe1-mpls-srv6.txt'', ''viejas'', ''pe1-mpls.txt''])\<rparr>)) =
     Some fila_mpls"
    by code_simp
  from main_independiente_del_listado [OF h, of directorio_ejemplo] h e show ?thesis
    by simp
qed

section \<open>The reference under a permutation of the records\<close>












text \<open>
  C4. For every non-empty list of records, the records sorted by count are a sorted
  rearrangement of the list, and the reference is the first of them, in that order, whose
  name lowercased contains \<open>mpls\<close> and does not contain \<open>srv\<close>; there is no reference
  exactly when no record has such a name. In the example directory, with 10 code lines in
  \<open>pe1-mpls.txt\<close> and 14 in \<open>pe1-mpls-srv6.txt\<close>, the reference is \<open>pe1-mpls.txt\<close> and
  \<open>pe1-mpls-srv6.txt\<close> gets the difference 4 and the percentage 40.
\<close>

theorem referencia_primera_coincidencia:
  "(resultados \<noteq> [] \<longrightarrow>
      (\<exists>rep. analisis resultados = Inr rep \<and>
         (let ord = sort_key lineas_codigo resultados
          in sorted (map lineas_codigo ord) \<and> mset ord = mset resultados \<and>
             (case referencia rep of
                None \<Rightarrow> \<forall>r \<in> set resultados. \<not> nombre_de_referencia (archivo r)
              | Some ref \<Rightarrow>
                  \<exists>i < length ord.
                    ref = filas rep ! i \<and>
                    archivo ref = archivo (ord ! i) \<and>
                    lineas_codigo ref = lineas_codigo (ord ! i) \<and>
                    nombre_de_referencia (archivo (ord ! i)) \<and>
                    (\<forall>j < i. \<not> nombre_de_referencia (archivo (ord ! j))))))) \<and>
   (\<exists>rep csv. main directorio_ejemplo = Completado rep csv \<and>
      map (\<lambda>r. (archivo r, lineas_codigo r)) csv =
        [(''pe1-mpls.txt'', 10), (''pe1-mpls-srv6.txt'', 14)] \<and>
      map_option archivo (referencia rep) = Some ''pe1-mpls.txt'' \<and>
      map (\<lambda>r. (diff_vs_ref_abs r, diff_vs_ref_pct r)) csv =
        [(Some 0, Some 0), (Some 4, Some 40)])"
proof -
  let ?ord = "sort_key lineas_codigo resultados"
  let ?mn = "Min (lineas_codigo ` set resultados)"
  let ?rf = "map_option lineas_codigo (encontrar_referencia ?ord)"
  have gen: "\<exists>rep. analisis resultados = Inr rep \<and>
         (let ord = ?ord
          in sorted (map lineas_codigo ord) \<and> mset ord = mset resultados \<and>
             (case referencia rep of
                None \<Rightarrow> \<forall>r \<in> set resultados. \<not> nombre_de_referencia (archivo r)
              | Some ref \<Rightarrow>
                  \<exists>i < length ord.
                    ref = filas rep ! i \<and>
                    archivo ref = archivo (ord ! i) \<and>
                    lineas_codigo ref = lineas_codigo (ord ! i) \<and>
                    nombre_de_referencia (archivo (ord ! i)) \<and>
                    (\<forall>j < i. \<not> nombre_de_referencia (archivo (ord ! j)))))"
    if ne: "resultados \<noteq> []"
  proof -
    obtain rep where rep: "analisis resultados = Inr rep"
      and filas: "filas rep = map (actualizado ?mn ?rf) ?ord"
      and ref: "referencia rep = map_option (actualizado ?mn ?rf) (find es_referencia ?ord)"
      using analisis_Inr [OF ne] by (simp add: encontrar_referencia_find)
    have sel: "case referencia rep of
                None \<Rightarrow> \<forall>r \<in> set resultados. \<not> nombre_de_referencia (archivo r)
              | Some ref \<Rightarrow>
                  \<exists>i < length ?ord.
                    ref = filas rep ! i \<and>
                    archivo ref = archivo (?ord ! i) \<and>
                    lineas_codigo ref = lineas_codigo (?ord ! i) \<and>
                    nombre_de_referencia (archivo (?ord ! i)) \<and>
                    (\<forall>j < i. \<not> nombre_de_referencia (archivo (?ord ! j)))"
    proof (cases "find es_referencia ?ord")
      case None
      then have "\<forall>r \<in> set ?ord. \<not> es_referencia r"
        by (simp only: find_None_iff) blast
      then have "\<forall>r \<in> set resultados. \<not> nombre_de_referencia (archivo r)"
        by (simp add: es_referencia_spec)
      with None ref show ?thesis
        by simp
    next
      case (Some r0)
      then obtain i where i: "i < length ?ord" and p: "es_referencia (?ord ! i)"
        and r0: "r0 = ?ord ! i" and first: "\<forall>j < i. \<not> es_referencia (?ord ! j)"
        by (auto simp only: find_Some_iff)
      have eq: "actualizado ?mn ?rf r0 = filas rep ! i"
        using i by (simp only: filas r0 nth_map)
      have sel: "referencia rep = Some (filas rep ! i)"
        using Some ref eq by simp
      have "archivo (filas rep ! i) = archivo (?ord ! i) \<and>
            lineas_codigo (filas rep ! i) = lineas_codigo (?ord ! i) \<and>
            nombre_de_referencia (archivo (?ord ! i)) \<and>
            (\<forall>j < i. \<not> nombre_de_referencia (archivo (?ord ! j)))"
        using p first by (simp add: eq [symmetric] r0 es_referencia_spec)
      with i have "\<exists>k < length ?ord.
            filas rep ! i = filas rep ! k \<and>
            archivo (filas rep ! i) = archivo (?ord ! k) \<and>
            lineas_codigo (filas rep ! i) = lineas_codigo (?ord ! k) \<and>
            nombre_de_referencia (archivo (?ord ! k)) \<and>
            (\<forall>j < k. \<not> nombre_de_referencia (archivo (?ord ! j)))"
        by blast
      with sel show ?thesis
        by simp
    qed
    from rep sel show ?thesis
      unfolding Let_def by auto
  qed
  have esc: "\<exists>rep csv. main directorio_ejemplo = Completado rep csv \<and>
      map (\<lambda>r. (archivo r, lineas_codigo r)) csv =
        [(''pe1-mpls.txt'', 10), (''pe1-mpls-srv6.txt'', 14)] \<and>
      map_option archivo (referencia rep) = Some ''pe1-mpls.txt'' \<and>
      map (\<lambda>r. (diff_vs_ref_abs r, diff_vs_ref_pct r)) csv =
        [(Some 0, Some 0), (Some 4, Some 40)]"
    using main_directorio_ejemplo
    by (simp add: informe_ejemplo_def informe_registros_def fila_mpls_def fila_srv6_def)
  from gen esc show ?thesis
    by blast
qed

theorem referencia_primera_coincidencia_witness:
  "registros_ejemplo \<noteq> [] \<and>
   analisis registros_ejemplo = Inr informe_registros \<and>
   map archivo (sort_key lineas_codigo registros_ejemplo) =
     [''pe1-mpls.txt'', ''PE1-SR-MPLS.cfg'', ''pe1-mpls-srv6.txt''] \<and>
   map_option archivo (referencia informe_registros) = Some ''pe1-mpls.txt'' \<and>
   nombre_de_referencia ''PE1-SR-MPLS.cfg'' \<and>
   \<not> nombre_de_referencia ''pe1-mpls-srv6.txt''"
proof -
  have s: "map archivo (sort_key lineas_codigo registros_ejemplo) =
     [''pe1-mpls.txt'', ''PE1-SR-MPLS.cfg'', ''pe1-mpls-srv6.txt'']"
    by code_simp
  have n: "nombre_de_referencia ''PE1-SR-MPLS.cfg'' \<and>
           \<not> nombre_de_referencia ''pe1-mpls-srv6.txt''"
    using es_referencia_spec [of fila_sr_mpls] es_referencia_spec [of fila_srv6]
    by (simp add: fila_sr_mpls_def fila_srv6_def) code_simp
  from referencia_primera_coincidencia [of registros_ejemplo]
    registros_ejemplo_no_vacio analisis_registros_ejemplo s n
  show ?thesis
    by (simp add: informe_registros_def fila_mpls_def)
qed

end
